theory Spec2Isabelle
  imports Complex_Main "HOL-Library.Multiset" "HOL-Library.Char_ord" "HOL-Library.List_Lexorder"
    "HOL-Library.Product_Lexorder"
begin

section \<open>Values, exceptions and the HTTP session\<close>

text \<open>
  The client passes around whatever \<^verbatim>\<open>response.json()\<close> yields: Python values built from
  JSON. \<open>JNull\<close> is Python's \<^verbatim>\<open>None\<close>, which the client also uses as its no-result
  sentinel. A dict is an association list read with \<open>map_of\<close>. Floats are modelled by
  the reals they denote (the code only compares, negates and adds them and divides once);
  the non-finite floats that \<^verbatim>\<open>json.loads\<close> also accepts (\<^verbatim>\<open>NaN\<close>, \<^verbatim>\<open>Infinity\<close>) are not
  values of the model. A string is a list of code points below 256.
\<close>

datatype json =
    JNull
  | JBool bool
  | JInt int
  | JFloat real
  | JStr string
  | JList "json list"
  | JDict "(string \<times> json) list"

text \<open>Python truthiness (\<^verbatim>\<open>if x:\<close>, \<^verbatim>\<open>not x\<close>, \<^verbatim>\<open>x or y\<close>).\<close>

fun truthy :: "json \<Rightarrow> bool" where
  "truthy JNull = False"
| "truthy (JBool b) = b"
| "truthy (JInt i) = (i \<noteq> 0)"
| "truthy (JFloat r) = (r \<noteq> 0)"
| "truthy (JStr s) = (s \<noteq> [])"
| "truthy (JList xs) = (xs \<noteq> [])"
| "truthy (JDict kvs) = (kvs \<noteq> [])"

text \<open>
  Exceptions, by the classes the handlers tell apart: the \<^verbatim>\<open>requests\<close> family
  (\<^verbatim>\<open>ConnectionError\<close>, \<^verbatim>\<open>Timeout\<close>, \<^verbatim>\<open>RetryError\<close>, \<^verbatim>\<open>HTTPError\<close>, ...), and other
  subclasses of \<^verbatim>\<open>Exception\<close>. Each carries its message, abbreviated.
\<close>

datatype exc =
    RequestException string
  | TypeError string
  | AttributeError string
  | OtherException string

fun is_RequestException :: "exc \<Rightarrow> bool" where
  "is_RequestException (RequestException m) = True"
| "is_RequestException e = False"

fun str_exc :: "exc \<Rightarrow> string" where
  "str_exc (RequestException m) = m"
| "str_exc (TypeError m) = m"
| "str_exc (AttributeError m) = m"
| "str_exc (OtherException m) = m"

datatype log_line = LDebug string | LWarning string | LError string

type_synonym kwargs = "(string \<times> json) list"

text \<open>
  The \<^verbatim>\<open>requests\<close> session is not part of the repository. A call of
  \<^verbatim>\<open>session.request(method, url, **kwargs)\<close> (retries included) either raises or
  returns a response; on the response, \<^verbatim>\<open>raise_for_status()\<close> either raises
  (\<^verbatim>\<open>HTTPError\<close> for an error status) or passes, and \<^verbatim>\<open>json()\<close> either raises (a body
  that is not JSON) or returns the parsed value.
\<close>

record response =
  raise_for_status :: "exc option"
  json_body :: "exc + json"

type_synonym session = "string \<Rightarrow> string \<Rightarrow> kwargs \<Rightarrow> exc + response"

type_synonym call = "string \<times> string \<times> kwargs"

record client =
  api_key :: string
  base_url :: string
  session :: session
  cache :: "string \<rightharpoonup> json \<times> real"

text \<open>
  What a client operation does: the value it returns or the exception it raises, the
  calls it made on the session, in order, and the lines it logged.
\<close>

record outcome =
  result :: "exc + json"
  sent :: "call list"
  logged :: "log_line list"

section \<open>String helpers\<close>

definition lstrip :: "char \<Rightarrow> string \<Rightarrow> string" where
  "lstrip c s = dropWhile (\<lambda>x. x = c) s"

definition rstrip :: "char \<Rightarrow> string \<Rightarrow> string" where
  "rstrip c s = rev (dropWhile (\<lambda>x. x = c) (rev s))"

text \<open>\<^verbatim>\<open>sep.join(xs)\<close>.\<close>

fun join :: "string \<Rightarrow> string list \<Rightarrow> string" where
  "join sep [] = []"
| "join sep [x] = x"
| "join sep (x # y # xs) = x @ sep @ join sep (y # xs)"

text \<open>\<^verbatim>\<open>str(n)\<close> for an int, as an f-string formats \<^verbatim>\<open>{radius}\<close>.\<close>

definition digit_char :: "nat \<Rightarrow> char" where
  "digit_char d = char_of (48 + d)"

fun str_nat :: "nat \<Rightarrow> string" where
  "str_nat n = (if n < 10 then [digit_char n] else str_nat (n div 10) @ [digit_char (n mod 10)])"

declare str_nat.simps [simp del]

definition str_int :: "int \<Rightarrow> string" where
  "str_int i = (if i < 0 then CHR ''-'' # str_nat (nat (- i)) else str_nat (nat i))"

section \<open>The request cache\<close>

text \<open>
  \<^verbatim>\<open>_get_cached\<close> and \<^verbatim>\<open>_set_cache\<close>. \<open>ttl\<close> is \<^verbatim>\<open>settings.CACHE_TTL\<close> and \<open>now\<close> the
  reading of \<^verbatim>\<open>time.time()\<close> the call takes. A miss is reported as \<^verbatim>\<open>None\<close>.
\<close>

definition get_cached :: "int \<Rightarrow> real \<Rightarrow> client \<Rightarrow> string \<Rightarrow> json \<times> client" where
  "get_cached ttl now c key =
     (case cache c key of
        Some (v, timestamp) \<Rightarrow>
          if now - timestamp < real_of_int ttl then (v, c)
          else (JNull, c\<lparr>cache := (cache c)(key := None)\<rparr>)
      | None \<Rightarrow> (JNull, c))"

definition set_cache :: "real \<Rightarrow> client \<Rightarrow> string \<Rightarrow> json \<Rightarrow> client" where
  "set_cache now c key v = c\<lparr>cache := (cache c)(key \<mapsto> (v, now))\<rparr>"

section \<open>The transport\<close>

text \<open>The body of the \<^verbatim>\<open>try\<close> in \<^verbatim>\<open>_request\<close>.\<close>

definition request_try :: "session \<Rightarrow> string \<Rightarrow> string \<Rightarrow> kwargs \<Rightarrow> exc + json" where
  "request_try sess method url kw =
     (case sess method url kw of
        Inl e \<Rightarrow> Inl e
      | Inr r \<Rightarrow>
          (case raise_for_status r of
             Some e \<Rightarrow> Inl e
           | None \<Rightarrow> json_body r))"

definition request_url :: "client \<Rightarrow> string \<Rightarrow> string" where
  "request_url c endpoint = rstrip CHR ''/'' (base_url c) @ ''/'' @ lstrip CHR ''/'' endpoint"

text \<open>\<^verbatim>\<open>_request\<close>: the two handlers turn every exception of the body into \<^verbatim>\<open>None\<close>.\<close>

definition request :: "client \<Rightarrow> string \<Rightarrow> string \<Rightarrow> kwargs \<Rightarrow> outcome" where
  "request c method endpoint kw =
     (let url = request_url c endpoint;
          dbg = LDebug (''Making '' @ method @ '' request to '' @ url)
      in case request_try (session c) method url kw of
           Inr v \<Rightarrow> \<lparr>result = Inr v, sent = [(method, url, kw)], logged = [dbg]\<rparr>
         | Inl e \<Rightarrow>
             if is_RequestException e
             then \<lparr>result = Inr JNull, sent = [(method, url, kw)],
                    logged = [dbg, LWarning (''API request failed: '' @ str_exc e)]\<rparr>
             else \<lparr>result = Inr JNull, sent = [(method, url, kw)],
                    logged = [dbg, LError (''Unexpected error in API request: '' @ str_exc e)]\<rparr>)"

section \<open>The cached read operations\<close>

text \<open>\<^verbatim>\<open>store_chains or []\<close> and \<^verbatim>\<open>if store_chains:\<close> for an optional list.\<close>

fun or_empty :: "string list option \<Rightarrow> string list" where
  "or_empty None = []"
| "or_empty (Some cs) = cs"

fun nonempty_chains :: "string list option \<Rightarrow> bool" where
  "nonempty_chains None = False"
| "nonempty_chains (Some cs) = (cs \<noteq> [])"

text \<open>
  The cache keys, as the f-strings build them. \<^verbatim>\<open>sorted\<close> orders strings by code point,
  which is the lexicographic order of \<open>char list\<close>.
\<close>

definition deals_key :: "string \<Rightarrow> int \<Rightarrow> string list option \<Rightarrow> string" where
  "deals_key zip_code radius store_chains =
     ''deals_'' @ zip_code @ ''_'' @ str_int radius @ ''_'' @ join ''_'' (sort (or_empty store_chains))"

definition search_key :: "string \<Rightarrow> string \<Rightarrow> int \<Rightarrow> string" where
  "search_key query zip_code radius = ''search_'' @ query @ ''_'' @ zip_code @ ''_'' @ str_int radius"

definition stores_key :: "string \<Rightarrow> int \<Rightarrow> string list option \<Rightarrow> string" where
  "stores_key zip_code radius chain_names =
     ''stores_'' @ zip_code @ ''_'' @ str_int radius @ ''_'' @ join ''_'' (sort (or_empty chain_names))"

definition store_key :: "string \<Rightarrow> string" where
  "store_key store_id = ''store_'' @ store_id"

definition location_params :: "string \<Rightarrow> int \<Rightarrow> string list option \<Rightarrow> kwargs" where
  "location_params zip_code radius chain_names =
     [(''zip_code'', JStr zip_code), (''radius'', JInt radius)] @
     (if nonempty_chains chain_names then [(''chains'', JStr (join '','' (or_empty chain_names)))] else [])"

text \<open>
  Each operation takes the TTL and the two clock readings it may take: \<open>t1\<close> in
  \<^verbatim>\<open>_get_cached\<close>, \<open>t2\<close> in \<^verbatim>\<open>_set_cache\<close>. The guard \<^verbatim>\<open>if cached := ...\<close> tests the
  truthiness of what \<^verbatim>\<open>_get_cached\<close> returned.
\<close>

definition get_todays_deals ::
  "int \<Rightarrow> real \<Rightarrow> real \<Rightarrow> client \<Rightarrow> string \<Rightarrow> int \<Rightarrow> string list option \<Rightarrow> outcome \<times> client" where
  "get_todays_deals ttl t1 t2 c zip_code radius store_chains =
     (let cache_key = deals_key zip_code radius store_chains;
          (cached, c1) = get_cached ttl t1 c cache_key
      in if truthy cached then (\<lparr>result = Inr cached, sent = [], logged = []\<rparr>, c1)
         else
           let r = request c1 ''GET'' ''deals/today''
                     [(''params'', JDict (location_params zip_code radius store_chains))]
           in case result r of
                Inl e \<Rightarrow> (r, c1)
              | Inr data \<Rightarrow> (r, set_cache t2 c1 cache_key data))"

definition search_products ::
  "int \<Rightarrow> real \<Rightarrow> real \<Rightarrow> client \<Rightarrow> string \<Rightarrow> string \<Rightarrow> int \<Rightarrow> outcome \<times> client" where
  "search_products ttl t1 t2 c query zip_code radius =
     (let cache_key = search_key query zip_code radius;
          (cached, c1) = get_cached ttl t1 c cache_key
      in if truthy cached then (\<lparr>result = Inr cached, sent = [], logged = []\<rparr>, c1)
         else
           let r = request c1 ''GET'' ''products/search''
                     [(''params'', JDict [(''query'', JStr query), (''zip_code'', JStr zip_code),
                                          (''radius'', JInt radius)])]
           in case result r of
                Inl e \<Rightarrow> (r, c1)
              | Inr data \<Rightarrow> (r, set_cache t2 c1 cache_key data))"

definition get_nearby_stores ::
  "int \<Rightarrow> real \<Rightarrow> real \<Rightarrow> client \<Rightarrow> string \<Rightarrow> int \<Rightarrow> string list option \<Rightarrow> outcome \<times> client" where
  "get_nearby_stores ttl t1 t2 c zip_code radius chain_names =
     (let cache_key = stores_key zip_code radius chain_names;
          (cached, c1) = get_cached ttl t1 c cache_key
      in if truthy cached then (\<lparr>result = Inr cached, sent = [], logged = []\<rparr>, c1)
         else
           let r = request c1 ''GET'' ''stores/nearby''
                     [(''params'', JDict (location_params zip_code radius chain_names))]
           in case result r of
                Inl e \<Rightarrow> (r, c1)
              | Inr data \<Rightarrow> (r, set_cache t2 c1 cache_key data))"

definition get_store_details ::
  "int \<Rightarrow> real \<Rightarrow> real \<Rightarrow> client \<Rightarrow> string \<Rightarrow> outcome \<times> client" where
  "get_store_details ttl t1 t2 c store_id =
     (let cache_key = store_key store_id;
          (cached, c1) = get_cached ttl t1 c cache_key
      in if truthy cached then (\<lparr>result = Inr cached, sent = [], logged = []\<rparr>, c1)
         else
           let r = request c1 ''GET'' (''stores/'' @ store_id) []
           in case result r of
                Inl e \<Rightarrow> (r, c1)
              | Inr data \<Rightarrow> (r, set_cache t2 c1 cache_key data))"

section \<open>The alert operations\<close>

definition create_price_alert :: "client \<Rightarrow> string \<Rightarrow> real \<Rightarrow> outcome" where
  "create_price_alert c product_id target_price =
     request c ''POST'' ''alerts''
       [(''json'', JDict [(''product_id'', JStr product_id), (''target_price'', JFloat target_price)])]"

definition get_user_alerts :: "client \<Rightarrow> outcome" where
  "get_user_alerts c = request c ''GET'' ''alerts'' []"

definition delete_alert :: "client \<Rightarrow> string \<Rightarrow> outcome" where
  "delete_alert c alert_id =
     (let r = request c ''DELETE'' (''alerts/'' @ alert_id) []
      in case result r of
           Inl e \<Rightarrow> r
         | Inr data \<Rightarrow> r\<lparr>result := Inr (JBool True)\<rparr>)"

section \<open>Python operations on values\<close>

text \<open>
  \<^verbatim>\<open>x.get(k)\<close>, telling an absent key (\<open>None\<close>) from a stored value; \<^verbatim>\<open>x.get(k, d)\<close>;
  \<^verbatim>\<open>len(x)\<close>; \<^verbatim>\<open>for y in x\<close>; \<^verbatim>\<open>x.lower()\<close>. Only a dict has \<^verbatim>\<open>get\<close>, only a string has
  \<^verbatim>\<open>lower\<close>; numbers, booleans and \<^verbatim>\<open>None\<close> have no length and cannot be iterated.
\<close>

fun get_item :: "json \<Rightarrow> string \<Rightarrow> exc + json option" where
  "get_item (JDict kvs) k = Inr (map_of kvs k)"
| "get_item x k = Inl (AttributeError ''object has no attribute get'')"

definition py_get :: "json \<Rightarrow> string \<Rightarrow> json \<Rightarrow> exc + json" where
  "py_get x k d =
     (case get_item x k of
        Inl e \<Rightarrow> Inl e
      | Inr None \<Rightarrow> Inr d
      | Inr (Some v) \<Rightarrow> Inr v)"

fun py_len :: "json \<Rightarrow> exc + nat" where
  "py_len (JStr s) = Inr (length s)"
| "py_len (JList xs) = Inr (length xs)"
| "py_len (JDict kvs) = Inr (length kvs)"
| "py_len x = Inl (TypeError ''object has no len()'')"

fun py_iter :: "json \<Rightarrow> exc + json list" where
  "py_iter (JList xs) = Inr xs"
| "py_iter (JDict kvs) = Inr (map (\<lambda>kv. JStr (fst kv)) kvs)"
| "py_iter (JStr s) = Inr (map (\<lambda>ch. JStr [ch]) s)"
| "py_iter x = Inl (TypeError ''object is not iterable'')"

text \<open>\<^verbatim>\<open>str.lower()\<close> on code points below 256: the ASCII capitals and the Latin-1
  capitals (U+00C0 to U+00DE without the multiplication sign U+00D7) move up by 32.\<close>

definition lower_char :: "char \<Rightarrow> char" where
  "lower_char ch =
     (let n = (of_char ch :: nat)
      in if (65 \<le> n \<and> n \<le> 90) \<or> (192 \<le> n \<and> n \<le> 222 \<and> n \<noteq> 215) then char_of (n + 32) else ch)"

definition lower :: "string \<Rightarrow> string" where
  "lower s = map lower_char s"

fun py_lower :: "json \<Rightarrow> exc + string" where
  "py_lower (JStr s) = Inr (lower s)"
| "py_lower x = Inl (AttributeError ''object has no attribute lower'')"

text \<open>\<^verbatim>\<open>q in s\<close> for two strings: \<open>q\<close> occurs in \<open>s\<close> as a contiguous slice.\<close>

fun is_substr :: "string \<Rightarrow> string \<Rightarrow> bool" where
  "is_substr q [] = (q = [])"
| "is_substr q (ch # s) = (take (length q) (ch # s) = q \<or> is_substr q s)"

text \<open>The numbers of Python that \<^verbatim>\<open><\<close>, \<^verbatim>\<open>+\<close> and unary \<^verbatim>\<open>-\<close> accept: int, float and bool.\<close>

fun num_of :: "json \<Rightarrow> real option" where
  "num_of (JInt i) = Some (real_of_int i)"
| "num_of (JFloat r) = Some r"
| "num_of (JBool b) = Some (if b then 1 else 0)"
| "num_of x = None"

section \<open>Sample data and loading\<close>

definition get_mock_deals :: "json list" where
  "get_mock_deals =
     [JDict [(''id'', JStr ''1''),
             (''product_name'', JStr ''Organic Whole Milk - 1 Gallon''),
             (''brand'', JStr ''Organic Valley''),
             (''price'', JFloat 4.99),
             (''original_price'', JFloat 5.99),
             (''discount_percent'', JInt 17),
             (''store_name'', JStr ''HEB''),
             (''store_id'', JStr ''HEB-123''),
             (''distance'', JFloat 1.5),
             (''image_url'', JStr ''https://m.media-amazon.com/images/I/71vUGB0GJEL._AC_UF1000,1000_QL80_.jpg''),
             (''category'', JStr ''Dairy'')],
      JDict [(''id'', JStr ''2''),
             (''product_name'', JStr ''Large Brown Eggs - 12 Count''),
             (''brand'', JStr ''Happy Egg Co''),
             (''price'', JFloat 3.49),
             (''original_price'', JFloat 4.99),
             (''discount_percent'', JInt 30),
             (''store_name'', JStr ''Walmart''),
             (''store_id'', JStr ''WAL-456''),
             (''distance'', JFloat 2.1),
             (''image_url'', JStr ''https://m.media-amazon.com/images/I/81x5K5VvWEL._AC_UF1000,1000_QL80_.jpg''),
             (''category'', JStr ''Dairy'')],
      JDict [(''id'', JStr ''3''),
             (''product_name'', JStr ''Fresh Ground Beef - 1lb''),
             (''brand'', JStr ''Certified Angus Beef''),
             (''price'', JFloat 5.99),
             (''original_price'', JFloat 7.99),
             (''discount_percent'', JInt 25),
             (''store_name'', JStr ''HEB''),
             (''store_id'', JStr ''HEB-123''),
             (''distance'', JFloat 1.5),
             (''image_url'', JStr ''https://m.media-amazon.com/images/I/71vUGB0GJEL._AC_UF1000,1000_QL80_.jpg''),
             (''category'', JStr ''Meat'')],
      JDict [(''id'', JStr ''4''),
             (''product_name'', JStr ''Organic Bananas - 1lb''),
             (''brand'', JStr ''Dole''),
             (''price'', JFloat 0.59),
             (''original_price'', JFloat 0.79),
             (''discount_percent'', JInt 25),
             (''store_name'', JStr ''Whole Foods''),
             (''store_id'', JStr ''WF-789''),
             (''distance'', JFloat 3.2),
             (''image_url'', JStr ''https://m.media-amazon.com/images/I/61fZ+YAYGaL._AC_UF1000,1000_QL80_.jpg''),
             (''category'', JStr ''Produce'')],
      JDict [(''id'', JStr ''5''),
             (''product_name'', JStr ''Cage-Free Chicken Breast - 2.5lb''),
             (''brand'', JStr ''Perdue''),
             (''price'', JFloat 8.99),
             (''original_price'', JFloat 12.99),
             (''discount_percent'', JInt 31),
             (''store_name'', JStr ''HEB''),
             (''store_id'', JStr ''HEB-123''),
             (''distance'', JFloat 1.5),
             (''image_url'', JStr ''https://m.media-amazon.com/images/I/61fZ+YAYGaL._AC_UF1000,1000_QL80_.jpg''),
             (''category'', JStr ''Meat'')],
      JDict [(''id'', JStr ''6''),
             (''product_name'', JStr ''Organic Strawberries - 16oz''),
             (''brand'', JStr (''Driscoll'' @ [CHR 0x27] @ ''s'')),
             (''price'', JFloat 3.99),
             (''original_price'', JFloat 5.99),
             (''discount_percent'', JInt 33),
             (''store_name'', JStr (''Trader Joe'' @ [CHR 0x27] @ ''s'')),
             (''store_id'', JStr ''TJ-101''),
             (''distance'', JFloat 4.5),
             (''image_url'', JStr ''https://m.media-amazon.com/images/I/61fZ+YAYGaL._AC_UF1000,1000_QL80_.jpg''),
             (''category'', JStr ''Produce'')]]"

text \<open>
  \<^verbatim>\<open>load_deals\<close>, the body under the \<^verbatim>\<open>st.cache_data\<close> decorator (which replays an earlier
  result of this body for the same arguments for five minutes). \<open>api_client\<close> is the
  client held in the session state, if any. Inside the inner \<^verbatim>\<open>try\<close> are the client call,
  the test \<^verbatim>\<open>not deals\<close> and \<^verbatim>\<open>len(deals)\<close>; its handler warns and falls through to the
  sample data. Nothing the outer \<^verbatim>\<open>try\<close> covers beyond that can raise, so its handler
  (\<^verbatim>\<open>return [], 0\<close>) has no branch here.
\<close>

record loaded =
  deals :: json
  deals_count :: nat
  warnings :: "string list"
  upstream :: "call list"
  api_state :: "client option"

definition fallback :: "string list \<Rightarrow> call list \<Rightarrow> client option \<Rightarrow> loaded" where
  "fallback ws cs st =
     \<lparr>deals = JList get_mock_deals, deals_count = length get_mock_deals, warnings = ws,
      upstream = cs, api_state = st\<rparr>"

definition api_warning :: "exc \<Rightarrow> string" where
  "api_warning e = ''API error: '' @ str_exc e @ ''. Falling back to sample data.''"

definition load_deals ::
  "int \<Rightarrow> real \<Rightarrow> real \<Rightarrow> client option \<Rightarrow> string \<Rightarrow> int \<Rightarrow> string list \<Rightarrow> loaded" where
  "load_deals ttl t1 t2 api_client zip_code radius store_chains =
     (case api_client of
        None \<Rightarrow> fallback [] [] None
      | Some c \<Rightarrow>
          (case get_todays_deals ttl t1 t2 c zip_code radius (Some store_chains) of
             (r, c') \<Rightarrow>
               (case result r of
                  Inl e \<Rightarrow> fallback [api_warning e] (sent r) (Some c')
                | Inr ds \<Rightarrow>
                    if \<not> truthy ds then fallback [] (sent r) (Some c')
                    else
                      (case py_len ds of
                         Inl e \<Rightarrow> fallback [api_warning e] (sent r) (Some c')
                       | Inr n \<Rightarrow>
                           \<lparr>deals = ds, deals_count = n, warnings = [], upstream = sent r,
                            api_state = Some c'\<rparr>))))"

text \<open>
  The average-savings metric:
  \<^verbatim>\<open>sum(deal.get('discount_percent', 0) for deal in deals) / len(deals) if deals else 0\<close>.
\<close>

fun sum_discounts :: "json list \<Rightarrow> exc + real" where
  "sum_discounts [] = Inr 0"
| "sum_discounts (deal # rest) =
     (case py_get deal ''discount_percent'' (JInt 0) of
        Inl e \<Rightarrow> Inl e
      | Inr v \<Rightarrow>
          (case num_of v of
             None \<Rightarrow> Inl (TypeError ''unsupported operand type(s) for +'')
           | Some d \<Rightarrow>
               (case sum_discounts rest of
                  Inl e \<Rightarrow> Inl e
                | Inr s \<Rightarrow> Inr (d + s))))"

definition avg_savings :: "json \<Rightarrow> exc + real" where
  "avg_savings ds =
     (if truthy ds then
        (case py_iter ds of
           Inl e \<Rightarrow> Inl e
         | Inr xs \<Rightarrow>
             (case sum_discounts xs of
                Inl e \<Rightarrow> Inl e
              | Inr s \<Rightarrow>
                  (case py_len ds of
                     Inl e \<Rightarrow> Inl e
                   | Inr n \<Rightarrow> Inr (s / real n))))
      else Inr 0)"

section \<open>Filtering\<close>

text \<open>
  One pass of the loop body over \<open>deal\<close>: \<open>Inr True\<close> when the deal is appended,
  \<open>Inr False\<close> when a \<^verbatim>\<open>continue\<close> skips it. \<open>search_query\<close> is the text of the quick-search
  box after \<^verbatim>\<open>.lower()\<close>.
\<close>

definition search_fields :: "json \<Rightarrow> exc + string list" where
  "search_fields deal =
     (case py_get deal ''product_name'' (JStr []) of
        Inl e \<Rightarrow> Inl e
      | Inr v1 \<Rightarrow>
     (case py_lower v1 of
        Inl e \<Rightarrow> Inl e
      | Inr f1 \<Rightarrow>
     (case py_get deal ''brand'' (JStr []) of
        Inl e \<Rightarrow> Inl e
      | Inr v2 \<Rightarrow>
     (case py_lower v2 of
        Inl e \<Rightarrow> Inl e
      | Inr f2 \<Rightarrow>
     (case py_get deal ''category'' (JStr []) of
        Inl e \<Rightarrow> Inl e
      | Inr v3 \<Rightarrow>
     (case py_lower v3 of
        Inl e \<Rightarrow> Inl e
      | Inr f3 \<Rightarrow> Inr [f1, f2, f3]))))))"

definition search_hit :: "string \<Rightarrow> string list \<Rightarrow> bool" where
  "search_hit search_query texts =
     list_ex (\<lambda>field. is_substr search_query field) (filter (\<lambda>field. field \<noteq> []) texts)"

definition category_skip :: "string \<Rightarrow> json \<Rightarrow> exc + bool" where
  "category_skip category_filter deal =
     (if category_filter \<noteq> ''All'' then
        (case get_item deal ''category'' of
           Inl e \<Rightarrow> Inl e
         | Inr None \<Rightarrow> Inr True
         | Inr (Some v) \<Rightarrow> Inr (v \<noteq> JStr category_filter))
      else Inr False)"

definition keep_deal :: "string \<Rightarrow> string \<Rightarrow> json \<Rightarrow> exc + bool" where
  "keep_deal search_query category_filter deal =
     (if search_query \<noteq> [] then
        (case search_fields deal of
           Inl e \<Rightarrow> Inl e
         | Inr texts \<Rightarrow>
             if \<not> search_hit search_query texts then Inr False
             else
               (case category_skip category_filter deal of
                  Inl e \<Rightarrow> Inl e
                | Inr skip \<Rightarrow> Inr (\<not> skip)))
      else
        (case category_skip category_filter deal of
           Inl e \<Rightarrow> Inl e
         | Inr skip \<Rightarrow> Inr (\<not> skip)))"

fun filter_loop :: "string \<Rightarrow> string \<Rightarrow> json list \<Rightarrow> exc + json list" where
  "filter_loop search_query category_filter [] = Inr []"
| "filter_loop search_query category_filter (deal # rest) =
     (case keep_deal search_query category_filter deal of
        Inl e \<Rightarrow> Inl e
      | Inr keep \<Rightarrow>
          (case filter_loop search_query category_filter rest of
             Inl e \<Rightarrow> Inl e
           | Inr kept \<Rightarrow> Inr (if keep then deal # kept else kept)))"

text \<open>The filter step on what \<^verbatim>\<open>load_deals\<close> returned, from the raw text of the search box.\<close>

definition filtered_deals :: "string \<Rightarrow> string \<Rightarrow> json \<Rightarrow> exc + json list" where
  "filtered_deals quick_search category_filter ds =
     (if truthy ds then
        (case py_iter ds of
           Inl e \<Rightarrow> Inl e
         | Inr xs \<Rightarrow> filter_loop (lower quick_search) category_filter xs)
      else Inr [])"

section \<open>Sorting\<close>

text \<open>
  Python's \<^verbatim>\<open>==\<close> on values: numbers (int, float, bool) by their value, strings and
  \<^verbatim>\<open>None\<close> by identity of content, lists position by position, dicts as sets of items.
  It never raises.
\<close>

fun py_eq :: "json \<Rightarrow> json \<Rightarrow> bool" where
  "py_eq JNull JNull = True"
| "py_eq (JStr s) (JStr t) = (s = t)"
| "py_eq (JList xs) (JList ys) = list_all2 py_eq xs ys"
| "py_eq (JDict d) (JDict e) =
     (length d = length e \<and>
      list_all (\<lambda>kv. list_ex (\<lambda>kw. fst kv = fst kw \<and> py_eq (snd kv) (snd kw)) e) d)"
| "py_eq a b = (case (num_of a, num_of b) of (Some x, Some y) \<Rightarrow> x = y | _ \<Rightarrow> False)"

text \<open>
  Python's \<^verbatim>\<open><\<close> on values: between two numbers, between two strings (by code point),
  and between two lists, which compares the first two items that are not \<^verbatim>\<open>==\<close>, or the
  lengths when there are none. Every other pairing raises \<^verbatim>\<open>TypeError\<close>: \<^verbatim>\<open>None\<close> and
  dicts have no order, and values of different kinds have none between them.
\<close>

fun py_lt :: "json \<Rightarrow> json \<Rightarrow> exc + bool"
  and py_lt_list :: "json list \<Rightarrow> json list \<Rightarrow> exc + bool" where
  "py_lt (JStr s) (JStr t) = Inr (s < t)"
| "py_lt (JList xs) (JList ys) = py_lt_list xs ys"
| "py_lt a b =
     (case (num_of a, num_of b) of
        (Some x, Some y) \<Rightarrow> Inr (x < y)
      | _ \<Rightarrow> Inl (TypeError ''< not supported between instances''))"
| "py_lt_list [] [] = Inr False"
| "py_lt_list [] (y # ys) = Inr True"
| "py_lt_list (x # xs) [] = Inr False"
| "py_lt_list (x # xs) (y # ys) = (if py_eq x y then py_lt_list xs ys else py_lt x y)"

text \<open>
  The keys the four \<^verbatim>\<open>sort\<close> calls compute: the value of a field, \<^verbatim>\<open>float('inf')\<close> for a
  missing price or distance, and for Best Value the tuple of the discount and the
  negated price. \<^verbatim>\<open>float('inf')\<close> is above every number; a tuple compares its first
  items unless they are \<^verbatim>\<open>==\<close>, and then its second items.
\<close>

datatype pykey = Key json | InfKey | PairKey json real

fun key_lt :: "pykey \<Rightarrow> pykey \<Rightarrow> exc + bool" where
  "key_lt (Key a) (Key b) = py_lt a b"
| "key_lt InfKey InfKey = Inr False"
| "key_lt (Key a) InfKey =
     (case num_of a of
        Some x \<Rightarrow> Inr True
      | None \<Rightarrow> Inl (TypeError ''< not supported between instances''))"
| "key_lt InfKey (Key b) =
     (case num_of b of
        Some y \<Rightarrow> Inr False
      | None \<Rightarrow> Inl (TypeError ''< not supported between instances''))"
| "key_lt (PairKey d p) (PairKey e q) = (if py_eq d e then Inr (p < q) else py_lt d e)"
| "key_lt (PairKey d p) k = Inl (TypeError ''< not supported between instances'')"
| "key_lt k (PairKey e q) = Inl (TypeError ''< not supported between instances'')"

text \<open>
  The key functions. Computing a key raises when the entry is no dict
  (\<^verbatim>\<open>AttributeError\<close>), and for Best Value when the price is no number (unary minus,
  \<^verbatim>\<open>TypeError\<close>).
\<close>

definition field_key :: "string \<Rightarrow> pykey \<Rightarrow> json \<Rightarrow> exc + pykey" where
  "field_key k d x =
     (case get_item x k of
        Inl e \<Rightarrow> Inl e
      | Inr None \<Rightarrow> Inr d
      | Inr (Some v) \<Rightarrow> Inr (Key v))"

definition price_key :: "json \<Rightarrow> exc + pykey" where
  "price_key x = field_key ''price'' InfKey x"

definition discount_key :: "json \<Rightarrow> exc + pykey" where
  "discount_key x = field_key ''discount_percent'' (Key (JInt 0)) x"

definition distance_key :: "json \<Rightarrow> exc + pykey" where
  "distance_key x = field_key ''distance'' InfKey x"

definition best_value_key :: "json \<Rightarrow> exc + pykey" where
  "best_value_key x =
     (case py_get x ''discount_percent'' (JInt 0) of
        Inl e \<Rightarrow> Inl e
      | Inr d \<Rightarrow>
          (case py_get x ''price'' (JInt 0) of
             Inl e \<Rightarrow> Inl e
           | Inr v \<Rightarrow>
               (case num_of v of
                  None \<Rightarrow> Inl (TypeError ''bad operand type for unary -'')
                | Some p \<Rightarrow> Inr (PairKey d (- p)))))"

text \<open>\<^verbatim>\<open>list.sort\<close> computes the key of every entry, in order, before it compares any.\<close>

fun keys_of :: "(json \<Rightarrow> exc + pykey) \<Rightarrow> json list \<Rightarrow> exc + pykey list" where
  "keys_of f [] = Inr []"
| "keys_of f (x # xs) =
     (case f x of
        Inl e \<Rightarrow> Inl e
      | Inr k \<Rightarrow>
          (case keys_of f xs of
             Inl e \<Rightarrow> Inl e
           | Inr ks \<Rightarrow> Inr (k # ks)))"

text \<open>
  \<^verbatim>\<open>xs.sort(key=f, reverse=r)\<close>. A list of at most one entry is returned as it is, with
  no comparison. Otherwise the sort compares every key with others until its place is
  fixed, and no key lies between two keys that cannot be compared, so it raises
  \<^verbatim>\<open>TypeError\<close> exactly when two of the keys cannot be compared. When all can, the result
  is the stable sort: each entry goes before the first entry that is not below it, and
  entries with equal keys keep their order. With \<^verbatim>\<open>reverse=True\<close> the list is reversed,
  sorted and reversed again, which keeps that order too. A raising sort leaves the list
  as it was. The page sorts only a list that the filter left non-empty.
\<close>

fun comparable :: "pykey list \<Rightarrow> bool" where
  "comparable [] = True"
| "comparable (k # ks) =
     (list_all (\<lambda>k'. \<not> isl (key_lt k k') \<and> \<not> isl (key_lt k' k)) ks \<and> comparable ks)"

fun insert_key :: "pykey \<times> json \<Rightarrow> (pykey \<times> json) list \<Rightarrow> (pykey \<times> json) list" where
  "insert_key p [] = [p]"
| "insert_key p (q # qs) =
     (if key_lt (fst q) (fst p) = Inr True then q # insert_key p qs else p # q # qs)"

definition stable_sort :: "(pykey \<times> json) list \<Rightarrow> (pykey \<times> json) list" where
  "stable_sort ps = foldr insert_key ps []"

definition sort_with :: "(json \<Rightarrow> exc + pykey) \<Rightarrow> bool \<Rightarrow> json list \<Rightarrow> exc + json list" where
  "sort_with f reverse xs =
     (case keys_of f xs of
        Inl e \<Rightarrow> Inl e
      | Inr ks \<Rightarrow>
          if length xs \<le> 1 then Inr xs
          else if \<not> comparable ks then Inl (TypeError ''< not supported between instances'')
          else if reverse then Inr (map snd (rev (stable_sort (rev (zip ks xs)))))
          else Inr (map snd (stable_sort (zip ks xs))))"

definition sort_step :: "string \<Rightarrow> json list \<Rightarrow> exc + json list" where
  "sort_step sort_option xs =
     (if sort_option = ''Price (Low to High)'' then sort_with price_key False xs
      else if sort_option = ''Discount %'' then sort_with discount_key True xs
      else if sort_option = ''Distance'' then sort_with distance_key False xs
      else sort_with best_value_key True xs)"

text \<open>
  The rank of a key whose parts are numbers, for stating what the orderings are: the
  number or infinity, paired with the second item of a tuple (0 for a plain key).
  Pairs are ordered lexicographically.
\<close>

datatype xnum = Fin real | PosInf

instantiation xnum :: linorder
begin

fun less_eq_xnum :: "xnum \<Rightarrow> xnum \<Rightarrow> bool" where
  "less_eq_xnum (Fin a) (Fin b) = (a \<le> b)"
| "less_eq_xnum x PosInf = True"
| "less_eq_xnum PosInf (Fin b) = False"

definition less_xnum :: "xnum \<Rightarrow> xnum \<Rightarrow> bool" where
  "less_xnum x y = (x \<le> y \<and> \<not> y \<le> x)"

instance
proof
  fix x y z :: xnum
  show "(x < y) = (x \<le> y \<and> \<not> y \<le> x)"
    by (simp add: less_xnum_def)
  show "x \<le> x"
    by (cases x) simp_all
  show "x \<le> y \<Longrightarrow> y \<le> z \<Longrightarrow> x \<le> z"
    by (cases x; cases y; cases z) simp_all
  show "x \<le> y \<Longrightarrow> y \<le> x \<Longrightarrow> x = y"
    by (cases x; cases y) simp_all
  show "x \<le> y \<or> y \<le> x"
    by (cases x; cases y) auto
qed

end

fun rank :: "pykey \<Rightarrow> (xnum \<times> real) option" where
  "rank (Key v) = map_option (\<lambda>x. (Fin x, 0)) (num_of v)"
| "rank InfKey = Some (PosInf, 0)"
| "rank (PairKey d p) = map_option (\<lambda>x. (Fin x, p)) (num_of d)"

definition rank_of :: "(json \<Rightarrow> exc + pykey) \<Rightarrow> json \<Rightarrow> xnum \<times> real" where
  "rank_of f x =
     (case f x of
        Inr k \<Rightarrow> (case rank k of Some r \<Rightarrow> r | None \<Rightarrow> (PosInf, 0))
      | Inl e \<Rightarrow> (PosInf, 0))"

text \<open>An entry whose field \<open>k\<close> is absent or a number.\<close>

definition number_or_absent :: "string \<Rightarrow> json \<Rightarrow> bool" where
  "number_or_absent k x =
     (case get_item x k of
        Inl e \<Rightarrow> False
      | Inr None \<Rightarrow> True
      | Inr (Some v) \<Rightarrow> num_of v \<noteq> None)"

text \<open>Two deals with a distance that is \<^verbatim>\<open>null\<close>, present and absent.\<close>

definition deal_a :: json where
  "deal_a = JDict [(''product_name'', JStr ''A''), (''price'', JFloat 1.0), (''distance'', JNull)]"

definition deal_b :: json where
  "deal_b = JDict [(''product_name'', JStr ''B''), (''price'', JFloat 2.0), (''distance'', JFloat 1.5)]"

definition deal_a_bare :: json where
  "deal_a_bare = JDict [(''product_name'', JStr ''A''), (''price'', JFloat 1.0)]"

section \<open>Example clients\<close>

text \<open>An upstream that cannot be reached, one that answers every call with a given
  body, and caches that hold an empty list or a single deal under a deals key.\<close>

definition unreachable :: session where
  "unreachable method url kw = Inl (RequestException ''connection refused'')"

definition answers :: "json \<Rightarrow> session" where
  "answers v method url kw = Inr \<lparr>raise_for_status = None, json_body = Inr v\<rparr>"

definition no_cache :: "string \<rightharpoonup> json \<times> real" where
  "no_cache = Map.empty"

definition client_of :: "session \<Rightarrow> (string \<rightharpoonup> json \<times> real) \<Rightarrow> client" where
  "client_of sess m =
     \<lparr>api_key = [], base_url = ''https://api.dealscout.example.com/v1'', session = sess, cache = m\<rparr>"

definition empty_list_cached :: "string \<rightharpoonup> json \<times> real" where
  "empty_list_cached = no_cache(''deals_78704_5_HEB_Walmart'' \<mapsto> (JList [], 0))"

definition one_deal :: json where
  "one_deal = JList [JDict [(''id'', JStr ''1'')]]"

definition one_deal_cached :: "string \<rightharpoonup> json \<times> real" where
  "one_deal_cached = no_cache(''deals_78704_5_HEB_Walmart'' \<mapsto> (one_deal, 0))"

section \<open>The filter of the specification\<close>

text \<open>
  The filter as the specification words it, for comparison with \<open>keep_deal\<close>: the entry
  is kept when the query is empty or occurs, case-insensitively, in its name, brand or
  category, and the category selector is \<open>All\<close> or equals the entry's category.
\<close>

definition spec_keeps :: "string \<Rightarrow> string \<Rightarrow> json \<Rightarrow> bool" where
  "spec_keeps quick_search category_filter deal =
     ((quick_search = [] \<or>
       (\<exists>k s a b. k \<in> {''product_name'', ''brand'', ''category''} \<and>
          get_item deal k = Inr (Some (JStr s)) \<and> lower s = a @ lower quick_search @ b)) \<and>
      (category_filter = ''All'' \<or> get_item deal ''category'' = Inr (Some (JStr category_filter))))"

text \<open>An entry as the filter expects it: a dict whose name, brand and category are each
  absent or a string.\<close>

definition text_entry :: "json \<Rightarrow> bool" where
  "text_entry deal =
     (case deal of
        JDict kvs \<Rightarrow>
          list_all (\<lambda>k. case map_of kvs k of None \<Rightarrow> True | Some (JStr s) \<Rightarrow> True | Some v \<Rightarrow> False)
            [''product_name'', ''brand'', ''category'']
      | _ \<Rightarrow> False)"

section \<open>Properties of the cache\<close>

lemma get_cached_absent:
  "cache c key = None \<Longrightarrow> get_cached ttl now c key = (JNull, c)"
  by (simp add: get_cached_def)

lemma get_cached_fresh:
  "cache c key = Some (v, ts) \<Longrightarrow> now - ts < real_of_int ttl \<Longrightarrow> get_cached ttl now c key = (v, c)"
  by (simp add: get_cached_def)

lemma get_cached_stale:
  "cache c key = Some (v, ts) \<Longrightarrow> \<not> now - ts < real_of_int ttl \<Longrightarrow>
   get_cached ttl now c key = (JNull, c\<lparr>cache := (cache c)(key := None)\<rparr>)"
  by (simp add: get_cached_def)

text \<open>
  C6. After \<open>set_cache\<close> at time \<open>t0\<close> stored \<open>v\<close> under \<open>k\<close>, a \<open>get_cached\<close> at time \<open>t1\<close>
  returns \<open>v\<close> and leaves the cache as it is while the age \<open>t1 - t0\<close> is below the TTL;
  once the age has reached the TTL it removes the entry, keeps every other entry, and
  reports a miss (\<open>JNull\<close>).
\<close>

theorem set_then_get_cached:
  "(t1 - t0 < real_of_int ttl \<longrightarrow>
      get_cached ttl t1 (set_cache t0 c k v) k = (v, set_cache t0 c k v)) \<and>
   (t1 - t0 \<ge> real_of_int ttl \<longrightarrow>
      fst (get_cached ttl t1 (set_cache t0 c k v) k) = JNull \<and>
      cache (snd (get_cached ttl t1 (set_cache t0 c k v) k)) k = None \<and>
      (\<forall>k'. k' \<noteq> k \<longrightarrow> cache (snd (get_cached ttl t1 (set_cache t0 c k v) k)) k' = cache c k'))"
  by (simp add: get_cached_def set_cache_def)

theorem set_then_get_cached_witness:
  "get_cached 3600 100 (set_cache 40 (client_of unreachable no_cache) ''k'' (JInt 7)) ''k''
     = (JInt 7, set_cache 40 (client_of unreachable no_cache) ''k'' (JInt 7)) \<and>
   fst (get_cached 3600 3640 (set_cache 40 (client_of unreachable no_cache) ''k'' (JInt 7)) ''k'') = JNull"
  using set_then_get_cached [of 100 40 3600 "client_of unreachable no_cache" "''k''" "JInt 7"]
    set_then_get_cached [of 3640 40 3600 "client_of unreachable no_cache" "''k''" "JInt 7"]
  by simp

section \<open>Properties of the transport\<close>

lemma request_cache_irrelevant [simp]: "request (c\<lparr>cache := m\<rparr>) = request c"
  by (simp add: request_def request_url_def fun_eq_iff)

lemma request_returns: "\<exists>v. result (request c method endpoint kw) = Inr v"
  by (simp add: request_def Let_def split: sum.splits)

lemma request_sent [simp]:
  "sent (request c method endpoint kw) = [(method, request_url c endpoint, kw)]"
  by (simp add: request_def Let_def split: sum.splits)

text \<open>
  C3. For every method, endpoint and keyword arguments, and whatever the session does,
  \<open>request\<close> returns a value and raises nothing. When the session call raises (a network
  failure, retries exhausted), when \<^verbatim>\<open>raise_for_status\<close> raises (an error status) and when
  \<^verbatim>\<open>json()\<close> raises (a malformed body), the value is \<open>JNull\<close>, Python's \<^verbatim>\<open>None\<close>; otherwise
  it is the parsed body.
\<close>

theorem request_never_raises:
  "(\<exists>v. result (request c method endpoint kw) = Inr v) \<and>
   (\<forall>e. session c method (request_url c endpoint) kw = Inl e \<longrightarrow>
      result (request c method endpoint kw) = Inr JNull) \<and>
   (\<forall>r e. session c method (request_url c endpoint) kw = Inr r \<and> raise_for_status r = Some e \<longrightarrow>
      result (request c method endpoint kw) = Inr JNull) \<and>
   (\<forall>r e. session c method (request_url c endpoint) kw = Inr r \<and> raise_for_status r = None \<and>
      json_body r = Inl e \<longrightarrow> result (request c method endpoint kw) = Inr JNull) \<and>
   (\<forall>r v. session c method (request_url c endpoint) kw = Inr r \<and> raise_for_status r = None \<and>
      json_body r = Inr v \<longrightarrow> result (request c method endpoint kw) = Inr v)"
  by (simp add: request_def request_try_def Let_def split: sum.splits option.splits)

theorem request_never_raises_witness:
  "session (client_of unreachable no_cache) ''GET'' (request_url (client_of unreachable no_cache) ''alerts'') []
     = Inl (RequestException ''connection refused'') \<and>
   result (request (client_of unreachable no_cache) ''GET'' ''alerts'' []) = Inr JNull"
  using request_never_raises [of "client_of unreachable no_cache" "''GET''" "''alerts''" "[]"]
  by (simp add: client_of_def unreachable_def)

section \<open>Properties of the alert operations\<close>

text \<open>
  C9. For every alert id, \<open>delete_alert\<close> issues one \<^verbatim>\<open>DELETE\<close> request and returns
  \<^verbatim>\<open>True\<close>, whatever the session did with the request.
\<close>

theorem delete_alert_reports_success:
  "result (delete_alert c alert_id) = Inr (JBool True) \<and>
   sent (delete_alert c alert_id) = [(''DELETE'', request_url c (''alerts/'' @ alert_id), [])]"
  using request_returns [of c "''DELETE''" "''alerts/'' @ alert_id" "[]"]
  by (auto simp add: delete_alert_def Let_def)

text \<open>
  C10. When the \<^verbatim>\<open>GET alerts\<close> call succeeds with body \<open>v\<close>, \<open>get_user_alerts\<close> returns
  \<open>v\<close> itself; for the empty list \<open>v = JList []\<close> the caller receives the empty list,
  not sample data.
\<close>

theorem get_user_alerts_passes_through:
  "session c ''GET'' (request_url c ''alerts'') [] = Inr r \<Longrightarrow> raise_for_status r = None \<Longrightarrow>
   json_body r = Inr v \<Longrightarrow> result (get_user_alerts c) = Inr v"
  by (simp add: get_user_alerts_def request_def request_try_def Let_def)

theorem get_user_alerts_passes_through_witness:
  "result (get_user_alerts (client_of (answers (JList [])) no_cache)) = Inr (JList [])"
  using get_user_alerts_passes_through [of "client_of (answers (JList [])) no_cache"
     "\<lparr>raise_for_status = None, json_body = Inr (JList [])\<rparr>" "JList []"]
  by (simp add: client_of_def answers_def)

section \<open>Properties of the cached reads\<close>

lemma set_cache_after_evict:
  "set_cache t (c\<lparr>cache := (cache c)(k := None)\<rparr>) k v = set_cache t c k v"
  by (simp add: set_cache_def)

lemma get_todays_deals_hit:
  "cache c (deals_key z r cs) = Some (v, ts) \<Longrightarrow> t1 - ts < real_of_int ttl \<Longrightarrow> truthy v \<Longrightarrow>
   get_todays_deals ttl t1 t2 c z r cs = (\<lparr>result = Inr v, sent = [], logged = []\<rparr>, c)"
  by (simp add: get_todays_deals_def get_cached_def)

lemma get_todays_deals_miss:
  assumes "cache c (deals_key z r cs) = None \<or>
     (\<exists>v ts. cache c (deals_key z r cs) = Some (v, ts) \<and> (\<not> t1 - ts < real_of_int ttl \<or> \<not> truthy v))"
  shows "\<exists>data. get_todays_deals ttl t1 t2 c z r cs =
      (request c ''GET'' ''deals/today'' [(''params'', JDict (location_params z r cs))],
       set_cache t2 c (deals_key z r cs) data) \<and>
     result (request c ''GET'' ''deals/today'' [(''params'', JDict (location_params z r cs))]) = Inr data"
  using assms request_returns [of c "''GET''" "''deals/today''" "[(''params'', JDict (location_params z r cs))]"]
  by (auto simp add: get_todays_deals_def get_cached_def Let_def set_cache_after_evict)

lemma search_products_hit:
  "cache c (search_key q z r) = Some (v, ts) \<Longrightarrow> t1 - ts < real_of_int ttl \<Longrightarrow> truthy v \<Longrightarrow>
   search_products ttl t1 t2 c q z r = (\<lparr>result = Inr v, sent = [], logged = []\<rparr>, c)"
  by (simp add: search_products_def get_cached_def)

lemma search_products_miss:
  assumes "cache c (search_key q z r) = None \<or>
     (\<exists>v ts. cache c (search_key q z r) = Some (v, ts) \<and> (\<not> t1 - ts < real_of_int ttl \<or> \<not> truthy v))"
  shows "\<exists>data. search_products ttl t1 t2 c q z r =
      (request c ''GET'' ''products/search''
         [(''params'', JDict [(''query'', JStr q), (''zip_code'', JStr z), (''radius'', JInt r)])],
       set_cache t2 c (search_key q z r) data) \<and>
     result (request c ''GET'' ''products/search''
         [(''params'', JDict [(''query'', JStr q), (''zip_code'', JStr z), (''radius'', JInt r)])]) = Inr data"
  using assms request_returns [of c "''GET''" "''products/search''"
     "[(''params'', JDict [(''query'', JStr q), (''zip_code'', JStr z), (''radius'', JInt r)])]"]
  by (auto simp add: search_products_def get_cached_def Let_def set_cache_after_evict)

lemma get_nearby_stores_hit:
  "cache c (stores_key z r cs) = Some (v, ts) \<Longrightarrow> t1 - ts < real_of_int ttl \<Longrightarrow> truthy v \<Longrightarrow>
   get_nearby_stores ttl t1 t2 c z r cs = (\<lparr>result = Inr v, sent = [], logged = []\<rparr>, c)"
  by (simp add: get_nearby_stores_def get_cached_def)

lemma get_nearby_stores_miss:
  assumes "cache c (stores_key z r cs) = None \<or>
     (\<exists>v ts. cache c (stores_key z r cs) = Some (v, ts) \<and> (\<not> t1 - ts < real_of_int ttl \<or> \<not> truthy v))"
  shows "\<exists>data. get_nearby_stores ttl t1 t2 c z r cs =
      (request c ''GET'' ''stores/nearby'' [(''params'', JDict (location_params z r cs))],
       set_cache t2 c (stores_key z r cs) data) \<and>
     result (request c ''GET'' ''stores/nearby'' [(''params'', JDict (location_params z r cs))]) = Inr data"
  using assms request_returns [of c "''GET''" "''stores/nearby''" "[(''params'', JDict (location_params z r cs))]"]
  by (auto simp add: get_nearby_stores_def get_cached_def Let_def set_cache_after_evict)

lemma get_store_details_hit:
  "cache c (store_key sid) = Some (v, ts) \<Longrightarrow> t1 - ts < real_of_int ttl \<Longrightarrow> truthy v \<Longrightarrow>
   get_store_details ttl t1 t2 c sid = (\<lparr>result = Inr v, sent = [], logged = []\<rparr>, c)"
  by (simp add: get_store_details_def get_cached_def)

lemma get_store_details_miss:
  assumes "cache c (store_key sid) = None \<or>
     (\<exists>v ts. cache c (store_key sid) = Some (v, ts) \<and> (\<not> t1 - ts < real_of_int ttl \<or> \<not> truthy v))"
  shows "\<exists>data. get_store_details ttl t1 t2 c sid =
      (request c ''GET'' (''stores/'' @ sid) [], set_cache t2 c (store_key sid) data) \<and>
     result (request c ''GET'' (''stores/'' @ sid) []) = Inr data"
  using assms request_returns [of c "''GET''" "''stores/'' @ sid" "[]"]
  by (auto simp add: get_store_details_def get_cached_def Let_def set_cache_after_evict)

lemma example_deals_key:
  "deals_key ''78704'' 5 (Some [''Walmart'', ''HEB'']) = ''deals_78704_5_HEB_Walmart''"
  by code_simp

lemma example_url:
  "request_url (client_of sess m) ''deals/today'' = ''https://api.dealscout.example.com/v1/deals/today''"
  by (simp add: request_url_def client_of_def rstrip_def lstrip_def)

text \<open>
  C1, as the specification states it, fails: with an empty list stored under the
  fingerprint ten seconds ago (TTL 3600), \<open>get_todays_deals\<close> does not return the stored
  list but calls the session and returns its answer.
\<close>

theorem cached_empty_list_is_fetched_again:
  "cache (client_of (answers one_deal) empty_list_cached) (deals_key ''78704'' 5 (Some [''Walmart'', ''HEB'']))
     = Some (JList [], 0) \<and>
   (10 :: real) - 0 < real_of_int 3600 \<and>
   sent (fst (get_todays_deals 3600 10 11 (client_of (answers one_deal) empty_list_cached)
               ''78704'' 5 (Some [''Walmart'', ''HEB''])))
     = [(''GET'', ''https://api.dealscout.example.com/v1/deals/today'',
         [(''params'', JDict [(''zip_code'', JStr ''78704''), (''radius'', JInt 5),
                              (''chains'', JStr ''Walmart,HEB'')])])] \<and>
   result (fst (get_todays_deals 3600 10 11 (client_of (answers one_deal) empty_list_cached)
               ''78704'' 5 (Some [''Walmart'', ''HEB''])))
     = Inr one_deal \<and>
   one_deal \<noteq> JList []"
proof -
  let ?c = "client_of (answers one_deal) empty_list_cached"
  let ?cs = "Some [''Walmart'', ''HEB'']"
  have stored: "cache ?c (deals_key ''78704'' 5 ?cs) = Some (JList [], 0)"
    by (simp add: example_deals_key client_of_def empty_list_cached_def)
  have "cache ?c (deals_key ''78704'' 5 ?cs) = None \<or>
     (\<exists>v ts. cache ?c (deals_key ''78704'' 5 ?cs) = Some (v, ts) \<and>
        (\<not> 10 - ts < real_of_int 3600 \<or> \<not> truthy v))"
    using stored by simp
  from get_todays_deals_miss [OF this, of 11]
  have run: "fst (get_todays_deals 3600 10 11 ?c ''78704'' 5 ?cs) =
      request ?c ''GET'' ''deals/today'' [(''params'', JDict (location_params ''78704'' 5 ?cs))]"
    by auto
  have res: "result (request ?c ''GET'' ''deals/today'' [(''params'', JDict (location_params ''78704'' 5 ?cs))])
      = Inr one_deal"
    by (simp add: request_def request_try_def Let_def client_of_def answers_def)
  have ne: "one_deal \<noteq> JList []"
    by (simp add: one_deal_def)
  have snt: "sent (fst (get_todays_deals 3600 10 11 ?c ''78704'' 5 ?cs)) =
      [(''GET'', ''https://api.dealscout.example.com/v1/deals/today'',
         [(''params'', JDict [(''zip_code'', JStr ''78704''), (''radius'', JInt 5),
                              (''chains'', JStr ''Walmart,HEB'')])])]"
    by (simp add: run example_url location_params_def)
  have res': "result (fst (get_todays_deals 3600 10 11 ?c ''78704'' 5 ?cs)) = Inr one_deal"
    by (simp only: run res)
  show ?thesis
    using stored ne snt res' by simp
qed

text \<open>
  C1, amended. Each of the four cached reads computes its fingerprint and reads the
  cache. When the cache holds, within the TTL, a value that is truthy (neither \<^verbatim>\<open>None\<close>
  nor empty), the read returns it, calls nothing and leaves the cache as it is. In every
  other case (no entry, an entry whose age has reached the TTL, or a stored value that
  is \<^verbatim>\<open>None\<close> or empty) it makes one request, stores the raw result, also \<^verbatim>\<open>None\<close>, under
  the fingerprint with the current time, and returns it.
\<close>

theorem cached_reads:
  "(\<forall>v ts. cache c (deals_key z r cs) = Some (v, ts) \<and> t1 - ts < real_of_int ttl \<and> truthy v \<longrightarrow>
      get_todays_deals ttl t1 t2 c z r cs = (\<lparr>result = Inr v, sent = [], logged = []\<rparr>, c)) \<and>
   (cache c (deals_key z r cs) = None \<or>
    (\<exists>v ts. cache c (deals_key z r cs) = Some (v, ts) \<and> (\<not> t1 - ts < real_of_int ttl \<or> \<not> truthy v)) \<longrightarrow>
      (\<exists>data. get_todays_deals ttl t1 t2 c z r cs =
         (request c ''GET'' ''deals/today'' [(''params'', JDict (location_params z r cs))],
          set_cache t2 c (deals_key z r cs) data) \<and>
        result (request c ''GET'' ''deals/today'' [(''params'', JDict (location_params z r cs))]) = Inr data)) \<and>
   (\<forall>v ts. cache c (search_key q z r) = Some (v, ts) \<and> t1 - ts < real_of_int ttl \<and> truthy v \<longrightarrow>
      search_products ttl t1 t2 c q z r = (\<lparr>result = Inr v, sent = [], logged = []\<rparr>, c)) \<and>
   (cache c (search_key q z r) = None \<or>
    (\<exists>v ts. cache c (search_key q z r) = Some (v, ts) \<and> (\<not> t1 - ts < real_of_int ttl \<or> \<not> truthy v)) \<longrightarrow>
      (\<exists>data. search_products ttl t1 t2 c q z r =
         (request c ''GET'' ''products/search''
            [(''params'', JDict [(''query'', JStr q), (''zip_code'', JStr z), (''radius'', JInt r)])],
          set_cache t2 c (search_key q z r) data) \<and>
        result (request c ''GET'' ''products/search''
            [(''params'', JDict [(''query'', JStr q), (''zip_code'', JStr z), (''radius'', JInt r)])]) = Inr data)) \<and>
   (\<forall>v ts. cache c (stores_key z r cs) = Some (v, ts) \<and> t1 - ts < real_of_int ttl \<and> truthy v \<longrightarrow>
      get_nearby_stores ttl t1 t2 c z r cs = (\<lparr>result = Inr v, sent = [], logged = []\<rparr>, c)) \<and>
   (cache c (stores_key z r cs) = None \<or>
    (\<exists>v ts. cache c (stores_key z r cs) = Some (v, ts) \<and> (\<not> t1 - ts < real_of_int ttl \<or> \<not> truthy v)) \<longrightarrow>
      (\<exists>data. get_nearby_stores ttl t1 t2 c z r cs =
         (request c ''GET'' ''stores/nearby'' [(''params'', JDict (location_params z r cs))],
          set_cache t2 c (stores_key z r cs) data) \<and>
        result (request c ''GET'' ''stores/nearby'' [(''params'', JDict (location_params z r cs))]) = Inr data)) \<and>
   (\<forall>v ts. cache c (store_key sid) = Some (v, ts) \<and> t1 - ts < real_of_int ttl \<and> truthy v \<longrightarrow>
      get_store_details ttl t1 t2 c sid = (\<lparr>result = Inr v, sent = [], logged = []\<rparr>, c)) \<and>
   (cache c (store_key sid) = None \<or>
    (\<exists>v ts. cache c (store_key sid) = Some (v, ts) \<and> (\<not> t1 - ts < real_of_int ttl \<or> \<not> truthy v)) \<longrightarrow>
      (\<exists>data. get_store_details ttl t1 t2 c sid =
         (request c ''GET'' (''stores/'' @ sid) [], set_cache t2 c (store_key sid) data) \<and>
        result (request c ''GET'' (''stores/'' @ sid) []) = Inr data))"
  by (intro conjI allI impI;
      (elim conjE)?;
      (rule get_todays_deals_hit get_todays_deals_miss search_products_hit search_products_miss
            get_nearby_stores_hit get_nearby_stores_miss get_store_details_hit get_store_details_miss);
      assumption)

theorem cached_reads_witness:
  "get_todays_deals 3600 10 11 (client_of unreachable one_deal_cached) ''78704'' 5 (Some [''Walmart'', ''HEB''])
     = (\<lparr>result = Inr one_deal, sent = [], logged = []\<rparr>, client_of unreachable one_deal_cached) \<and>
   fst (get_store_details 3600 10 11 (client_of unreachable no_cache) ''HEB-123'')
     = request (client_of unreachable no_cache) ''GET'' ''stores/HEB-123'' [] \<and>
   result (request (client_of unreachable no_cache) ''GET'' ''stores/HEB-123'' []) = Inr JNull \<and>
   cache (snd (get_store_details 3600 10 11 (client_of unreachable no_cache) ''HEB-123'')) ''store_HEB-123''
     = Some (JNull, 11)"
proof -
  have hit: "cache (client_of unreachable one_deal_cached) (deals_key ''78704'' 5 (Some [''Walmart'', ''HEB'']))
      = Some (one_deal, 0) \<and> (10 :: real) - 0 < real_of_int 3600 \<and> truthy one_deal"
    by (simp add: example_deals_key client_of_def one_deal_cached_def one_deal_def)
  have miss: "cache (client_of unreachable no_cache) (store_key ''HEB-123'') = None"
    by (simp add: client_of_def no_cache_def)
  have res: "result (request (client_of unreachable no_cache) ''GET'' ''stores/HEB-123'' []) = Inr JNull"
    by (simp add: request_def request_try_def Let_def client_of_def unreachable_def)
  show ?thesis
    using hit miss res
      cached_reads [of "client_of unreachable one_deal_cached" "''78704''" 5 "Some [''Walmart'', ''HEB'']"
        10 3600 11]
      cached_reads [of "client_of unreachable no_cache" _ _ _ 10 3600 11 _ "''HEB-123''"]
    by (auto simp add: set_cache_def store_key_def)
qed

section \<open>Properties of the cache keys\<close>

text \<open>
  C7. For every zip code and radius, two chain lists that are permutations of each other
  give \<open>get_todays_deals\<close> the same cache key, and \<open>get_nearby_stores\<close> likewise.
\<close>

theorem permuted_chains_same_key:
  "mset cs = mset ds \<Longrightarrow>
   deals_key z r (Some cs) = deals_key z r (Some ds) \<and>
   stores_key z r (Some cs) = stores_key z r (Some ds)"
proof -
  assume "mset cs = mset ds"
  then have "sort cs = sort ds"
    by (intro properties_for_sort) simp_all
  then show ?thesis
    by (simp add: deals_key_def stores_key_def)
qed

theorem permuted_chains_same_key_witness:
  "mset [''Walmart'', ''HEB''] = mset [''HEB'', ''Walmart''] \<and>
   deals_key ''78704'' 5 (Some [''Walmart'', ''HEB'']) = deals_key ''78704'' 5 (Some [''HEB'', ''Walmart'']) \<and>
   stores_key ''78704'' 5 (Some [''Walmart'', ''HEB'']) = stores_key ''78704'' 5 (Some [''HEB'', ''Walmart''])"
proof -
  have h: "mset [''Walmart'', ''HEB''] = mset [''HEB'', ''Walmart'']"
    by (simp add: add_mset_commute)
  show ?thesis
    using h permuted_chains_same_key [OF h, of "''78704''" 5] by simp
qed

text \<open>
  C8, as the specification states it, fails: the pieces of a key are joined with an
  underscore that the pieces may contain. Two searches that differ in the query and in
  the zip code share a key; two deals calls that differ in the zip code, the radius and
  the chains share a key; a chain name with an underscore gives the key of two chains;
  and a single empty chain name gives the key of no chains.
\<close>

theorem keys_collide:
  "search_key ''milk_1'' ''78704'' 5 = search_key ''milk'' ''1_78704'' 5 \<and>
   (''milk_1'', ''78704'') \<noteq> (''milk'', ''1_78704'') \<and>
   deals_key ''1_2'' 3 (Some [''a'']) = deals_key ''1'' 2 (Some [''3'', ''a'']) \<and>
   deals_key ''78704'' 5 (Some [''a_b'']) = deals_key ''78704'' 5 (Some [''a'', ''b'']) \<and>
   mset [''a_b''] \<noteq> mset [''a'', ''b''] \<and>
   stores_key ''78704'' 5 (Some [[]]) = stores_key ''78704'' 5 (Some []) \<and>
   mset [[] :: string] \<noteq> mset []"
proof -
  have "deals_key ''1_2'' 3 (Some [''a'']) = deals_key ''1'' 2 (Some [''3'', ''a''])"
    by code_simp
  moreover have "deals_key ''78704'' 5 (Some [''a_b'']) = deals_key ''78704'' 5 (Some [''a'', ''b''])"
    by code_simp
  moreover have "stores_key ''78704'' 5 (Some [[]]) = stores_key ''78704'' 5 (Some [])"
    by (simp add: stores_key_def)
  ultimately show ?thesis
    by (simp add: search_key_def)
qed

lemma split_at_underscore:
  "CHR ''_'' \<notin> set a \<Longrightarrow> CHR ''_'' \<notin> set a' \<Longrightarrow> a @ CHR ''_'' # b = a' @ CHR ''_'' # b' \<Longrightarrow>
   a = a' \<and> b = b'"
proof (induction a arbitrary: a')
  case Nil
  then show ?case by (cases a') auto
next
  case (Cons x a)
  then show ?case by (cases a') auto
qed

lemma digit_char_neq [simp]:
  "d < 10 \<Longrightarrow> digit_char d \<noteq> CHR ''_''" "d < 10 \<Longrightarrow> digit_char d \<noteq> CHR ''-''"
  "d < 10 \<Longrightarrow> CHR ''_'' \<noteq> digit_char d" "d < 10 \<Longrightarrow> CHR ''-'' \<noteq> digit_char d"
  by (auto simp add: digit_char_def dest!: arg_cong [where f = "of_char :: char \<Rightarrow> nat"])

lemma digit_char_inj: "d < 10 \<Longrightarrow> d' < 10 \<Longrightarrow> digit_char d = digit_char d' \<Longrightarrow> d = d'"
  by (auto simp add: digit_char_def dest!: arg_cong [where f = "of_char :: char \<Rightarrow> nat"])

lemma str_nat_digits: "ch \<in> set (str_nat n) \<Longrightarrow> \<exists>d<10. ch = digit_char d"
proof (induction n rule: str_nat.induct)
  case (1 n)
  show ?case
  proof (cases "n < 10")
    case True
    with "1.prems" show ?thesis by (auto simp add: str_nat.simps [of n])
  next
    case False
    with "1.prems" "1.IH" show ?thesis
      by (auto simp add: str_nat.simps [of n] intro: exI [of _ "n mod 10"])
  qed
qed

lemma str_nat_nonempty [simp]: "str_nat n \<noteq> []" "[] \<noteq> str_nat n"
  by (subst str_nat.simps, simp)+

lemma str_nat_inj: "str_nat n = str_nat m \<Longrightarrow> n = m"
proof (induction n arbitrary: m rule: str_nat.induct)
  case (1 n)
  show ?case
  proof (cases "n < 10")
    case n: True
    show ?thesis
    proof (cases "m < 10")
      case True
      with n "1.prems" show ?thesis
        by (simp add: str_nat.simps [of n] str_nat.simps [of m] digit_char_inj)
    next
      case False
      with n "1.prems" show ?thesis
        by (simp add: str_nat.simps [of n] str_nat.simps [of m])
    qed
  next
    case n: False
    show ?thesis
    proof (cases "m < 10")
      case True
      with n "1.prems" show ?thesis
        by (simp add: str_nat.simps [of n] str_nat.simps [of m])
    next
      case False
      with n "1.prems" have eq: "str_nat (n div 10) = str_nat (m div 10)"
        and dg: "digit_char (n mod 10) = digit_char (m mod 10)"
        by (simp_all add: str_nat.simps [of n] str_nat.simps [of m])
      from "1.IH" [OF n eq] have "n div 10 = m div 10" .
      moreover from dg have "n mod 10 = m mod 10"
        by (intro digit_char_inj) simp_all
      ultimately show ?thesis
        by (metis div_mult_mod_eq)
    qed
  qed
qed

lemma str_int_no_underscore [simp]: "CHR ''_'' \<notin> set (str_int i)"
  by (auto simp add: str_int_def dest!: str_nat_digits)

lemma str_int_inj: "str_int i = str_int j \<Longrightarrow> i = j"
proof -
  assume eq: "str_int i = str_int j"
  have no_minus: "\<And>n. hd (str_nat n) \<noteq> CHR ''-''"
  proof -
    fix n
    have "hd (str_nat n) \<in> set (str_nat n)" by simp
    then obtain d where "d < 10" "hd (str_nat n) = digit_char d"
      using str_nat_digits by blast
    then show "hd (str_nat n) \<noteq> CHR ''-''"
      by simp
  qed
  show ?thesis
  proof (cases "i < 0"; cases "j < 0")
    assume "i < 0" "j < 0"
    with eq have "nat (- i) = nat (- j)"
      by (simp add: str_int_def str_nat_inj)
    with \<open>i < 0\<close> \<open>j < 0\<close> show ?thesis by simp
  next
    assume "i < 0" "\<not> j < 0"
    with eq no_minus [of "nat j"] show ?thesis
      by (auto simp add: str_int_def dest: arg_cong [where f = hd])
  next
    assume "\<not> i < 0" "j < 0"
    with eq no_minus [of "nat i"] show ?thesis
      by (auto simp add: str_int_def dest: arg_cong [where f = hd])
  next
    assume "\<not> i < 0" "\<not> j < 0"
    with eq have "nat i = nat j"
      by (simp add: str_int_def str_nat_inj)
    with \<open>\<not> i < 0\<close> \<open>\<not> j < 0\<close> show ?thesis by simp
  qed
qed

lemma join_Cons: "join sep (x # xs) = x @ (if xs = [] then [] else sep @ join sep xs)"
  by (cases xs) simp_all

lemma join_underscore_inj:
  "\<forall>x\<in>set xs. x \<noteq> [] \<and> CHR ''_'' \<notin> set x \<Longrightarrow> \<forall>y\<in>set ys. y \<noteq> [] \<and> CHR ''_'' \<notin> set y \<Longrightarrow>
   join ''_'' xs = join ''_'' ys \<Longrightarrow> xs = ys"
proof (induction xs arbitrary: ys)
  case Nil
  then show ?case by (cases ys) (auto simp add: join_Cons)
next
  case (Cons x xs)
  show ?case
  proof (cases ys)
    case Nil
    with Cons.prems show ?thesis by (auto simp add: join_Cons)
  next
    case ys: (Cons y ys')
    have x: "CHR ''_'' \<notin> set x" and y: "CHR ''_'' \<notin> set y"
      using Cons.prems ys by auto
    show ?thesis
    proof (cases "xs = []"; cases "ys' = []")
      assume "xs = []" "ys' = []"
      with Cons.prems ys show ?thesis by (simp add: join_Cons)
    next
      assume "xs = []" "ys' \<noteq> []"
      with Cons.prems(3) ys have "x = y @ CHR ''_'' # join ''_'' ys'"
        by (simp add: join_Cons)
      then have "CHR ''_'' \<in> set x" by simp
      with x show ?thesis by simp
    next
      assume "xs \<noteq> []" "ys' = []"
      with Cons.prems(3) ys have "y = x @ CHR ''_'' # join ''_'' xs"
        by (simp add: join_Cons)
      then have "CHR ''_'' \<in> set y" by simp
      with y show ?thesis by simp
    next
      assume "xs \<noteq> []" "ys' \<noteq> []"
      with Cons.prems(3) ys have "x @ CHR ''_'' # join ''_'' xs = y @ CHR ''_'' # join ''_'' ys'"
        by (simp add: join_Cons)
      from split_at_underscore [OF x y this] have "x = y" "join ''_'' xs = join ''_'' ys'"
        by simp_all
      moreover from Cons.IH [of ys'] Cons.prems ys \<open>join ''_'' xs = join ''_'' ys'\<close> have "xs = ys'"
        by simp
      ultimately show ?thesis using ys by simp
    qed
  qed
qed

lemma location_key_inj:
  assumes z: "CHR ''_'' \<notin> set z" "CHR ''_'' \<notin> set z'"
    and cs: "\<forall>x\<in>set xs. x \<noteq> [] \<and> CHR ''_'' \<notin> set x" "\<forall>y\<in>set ys. y \<noteq> [] \<and> CHR ''_'' \<notin> set y"
    and eq: "z @ ''_'' @ str_int r @ ''_'' @ join ''_'' (sort xs) =
             z' @ ''_'' @ str_int r' @ ''_'' @ join ''_'' (sort ys)"
  shows "z = z' \<and> r = r' \<and> mset xs = mset ys"
proof -
  from eq have "z @ CHR ''_'' # (str_int r @ CHR ''_'' # join ''_'' (sort xs)) =
      z' @ CHR ''_'' # (str_int r' @ CHR ''_'' # join ''_'' (sort ys))"
    by simp
  from split_at_underscore [OF z this]
  have zz: "z = z'" and rest: "str_int r @ CHR ''_'' # join ''_'' (sort xs) =
      str_int r' @ CHR ''_'' # join ''_'' (sort ys)"
    by simp_all
  from split_at_underscore [OF _ _ rest]
  have rr: "str_int r = str_int r'" and j: "join ''_'' (sort xs) = join ''_'' (sort ys)"
    by simp_all
  from cs j have "sort xs = sort ys"
    by (intro join_underscore_inj) simp_all
  then have "mset (sort xs) = mset (sort ys)" by simp
  then have "mset xs = mset ys" by simp
  with zz rr show ?thesis by (simp add: str_int_inj)
qed

lemma search_key_inj_zip:
  assumes z: "CHR ''_'' \<notin> set z" "CHR ''_'' \<notin> set z'"
    and eq: "search_key q z r = search_key q' z' r'"
  shows "q = q' \<and> z = z' \<and> r = r'"
proof -
  from eq have "q @ CHR ''_'' # z @ CHR ''_'' # str_int r = q' @ CHR ''_'' # z' @ CHR ''_'' # str_int r'"
    by (simp add: search_key_def)
  then have "rev (q @ CHR ''_'' # z @ CHR ''_'' # str_int r) = rev (q' @ CHR ''_'' # z' @ CHR ''_'' # str_int r')"
    by (rule arg_cong)
  then have e: "rev (str_int r) @ CHR ''_'' # (rev z @ CHR ''_'' # rev q) =
      rev (str_int r') @ CHR ''_'' # (rev z' @ CHR ''_'' # rev q')"
    by simp
  have "rev (str_int r) = rev (str_int r') \<and> rev z @ CHR ''_'' # rev q = rev z' @ CHR ''_'' # rev q'"
    by (rule split_at_underscore [OF _ _ e]) simp_all
  then have rr: "str_int r = str_int r'" and rest: "rev z @ CHR ''_'' # rev q = rev z' @ CHR ''_'' # rev q'"
    by simp_all
  have "rev z = rev z' \<and> rev q = rev q'"
    by (rule split_at_underscore [OF _ _ rest]) (simp_all add: z)
  with rr show ?thesis
    by (simp add: str_int_inj)
qed

text \<open>
  C8, amended. Keys of different operations never coincide, and the store-details key
  determines the store id. Two searches that differ in a parameter have different keys
  provided the zip codes contain no underscore; the query may be any string. Two deals
  calls, and two nearby-stores calls, that differ in a parameter (chain lists taken up
  to order, an absent list as the empty one) have different keys provided the zip codes
  and the chain names contain no underscore and no chain name is empty.
\<close>

theorem keys_distinct:
  "deals_key z r cs \<noteq> search_key q z' r' \<and>
   deals_key z r cs \<noteq> stores_key z' r' cs' \<and>
   deals_key z r cs \<noteq> store_key sid \<and>
   search_key q z r \<noteq> stores_key z' r' cs' \<and>
   search_key q z r \<noteq> store_key sid \<and>
   stores_key z r cs \<noteq> store_key sid \<and>
   (sid \<noteq> sid' \<longrightarrow> store_key sid \<noteq> store_key sid') \<and>
   (CHR ''_'' \<notin> set z \<and> CHR ''_'' \<notin> set z' \<and> (q \<noteq> q' \<or> z \<noteq> z' \<or> r \<noteq> r') \<longrightarrow>
      search_key q z r \<noteq> search_key q' z' r') \<and>
   (CHR ''_'' \<notin> set z \<and> CHR ''_'' \<notin> set z' \<and>
    (\<forall>x\<in>set (or_empty cs). x \<noteq> [] \<and> CHR ''_'' \<notin> set x) \<and>
    (\<forall>y\<in>set (or_empty cs'). y \<noteq> [] \<and> CHR ''_'' \<notin> set y) \<and>
    (z \<noteq> z' \<or> r \<noteq> r' \<or> mset (or_empty cs) \<noteq> mset (or_empty cs')) \<longrightarrow>
      deals_key z r cs \<noteq> deals_key z' r' cs' \<and> stores_key z r cs \<noteq> stores_key z' r' cs')"
proof -
  have cross: "deals_key z r cs \<noteq> search_key q z' r'" "deals_key z r cs \<noteq> stores_key z' r' cs'"
    "deals_key z r cs \<noteq> store_key sid" "search_key q z r \<noteq> stores_key z' r' cs'"
    "search_key q z r \<noteq> store_key sid" "stores_key z r cs \<noteq> store_key sid"
    by (simp_all add: deals_key_def search_key_def stores_key_def store_key_def)
  have store: "sid \<noteq> sid' \<longrightarrow> store_key sid \<noteq> store_key sid'"
    by (simp add: store_key_def)
  have search: "CHR ''_'' \<notin> set z \<and> CHR ''_'' \<notin> set z' \<and> (q \<noteq> q' \<or> z \<noteq> z' \<or> r \<noteq> r') \<longrightarrow>
      search_key q z r \<noteq> search_key q' z' r'"
    using search_key_inj_zip [of z z' q r q' r'] by blast
  have loc: "CHR ''_'' \<notin> set z \<and> CHR ''_'' \<notin> set z' \<and>
    (\<forall>x\<in>set (or_empty cs). x \<noteq> [] \<and> CHR ''_'' \<notin> set x) \<and>
    (\<forall>y\<in>set (or_empty cs'). y \<noteq> [] \<and> CHR ''_'' \<notin> set y) \<and>
    (z \<noteq> z' \<or> r \<noteq> r' \<or> mset (or_empty cs) \<noteq> mset (or_empty cs')) \<longrightarrow>
      deals_key z r cs \<noteq> deals_key z' r' cs' \<and> stores_key z r cs \<noteq> stores_key z' r' cs'"
    using location_key_inj [of z z' "or_empty cs" "or_empty cs'" r r']
    by (auto simp add: deals_key_def stores_key_def)
  from cross store search loc show ?thesis by blast
qed

theorem keys_distinct_witness:
  "search_key ''ice_cream'' ''78704'' 5 \<noteq> search_key ''ice'' ''78704'' 5 \<and>
   search_key ''milk'' ''78704'' 5 \<noteq> search_key ''milk'' ''78704'' 10 \<and>
   deals_key ''78704'' 5 (Some [''HEB'']) \<noteq> deals_key ''78704'' 5 (Some [''HEB'', ''Walmart'']) \<and>
   store_key ''HEB-123'' \<noteq> store_key ''WAL-456''"
  using keys_distinct [of "''78704''" 5 "Some [''HEB'']" "''milk''" "''78704''" 10 "Some [''HEB'', ''Walmart'']"
      "''HEB-123''" "''WAL-456''" "''milk''"]
    keys_distinct [of "''78704''" 5 "Some [''HEB'']" "''ice_cream''" "''78704''" 5 "Some [''HEB'', ''Walmart'']"
      "''HEB-123''" "''WAL-456''" "''ice''"]
  by simp

section \<open>Properties of loading\<close>

lemma length_get_mock_deals: "length get_mock_deals = 6"
  by (simp add: get_mock_deals_def)

lemma sum_discounts_mock: "sum_discounts get_mock_deals = Inr 161"
  by (simp add: get_mock_deals_def py_get_def)

lemma avg_savings_mock: "avg_savings (JList get_mock_deals) = Inr (161 / 6)"
proof -
  have "get_mock_deals \<noteq> []"
    using length_get_mock_deals by auto
  then show ?thesis
    by (simp add: avg_savings_def sum_discounts_mock length_get_mock_deals)
qed

text \<open>
  C2. Whenever the client's deals call returns \<^verbatim>\<open>None\<close> or an empty list, \<open>load_deals\<close>
  returns the sample dataset and its count 6; the dataset has six entries, and the
  average-savings metric over it is \<open>(17+30+25+25+31+33)/6\<close>, which rounds to 26.8 at
  one decimal.
\<close>

theorem load_deals_falls_back:
  "result (fst (get_todays_deals ttl t1 t2 c z r (Some cs))) = Inr v \<Longrightarrow> v = JNull \<or> v = JList [] \<Longrightarrow>
   deals (load_deals ttl t1 t2 (Some c) z r cs) = JList get_mock_deals \<and>
   deals_count (load_deals ttl t1 t2 (Some c) z r cs) = 6 \<and>
   length get_mock_deals = 6 \<and>
   avg_savings (JList get_mock_deals) = Inr ((17 + 30 + 25 + 25 + 31 + 33) / 6) \<and>
   \<bar>(17 + 30 + 25 + 25 + 31 + 33) / 6 - (26.8 :: real)\<bar> < 0.05"
proof -
  assume res: "result (fst (get_todays_deals ttl t1 t2 c z r (Some cs))) = Inr v"
    and v: "v = JNull \<or> v = JList []"
  obtain o' c' where run: "get_todays_deals ttl t1 t2 c z r (Some cs) = (o', c')"
    by (cases "get_todays_deals ttl t1 t2 c z r (Some cs)")
  with res have "result o' = Inr v" by simp
  moreover from v have "\<not> truthy v" by auto
  ultimately have "load_deals ttl t1 t2 (Some c) z r cs = fallback [] (sent o') (Some c')"
    by (simp add: load_deals_def run)
  then show ?thesis
    by (simp add: fallback_def length_get_mock_deals avg_savings_mock)
qed

theorem load_deals_falls_back_witness:
  "result (fst (get_todays_deals 3600 10 11 (client_of unreachable no_cache) ''78704'' 5
      (Some [''HEB'', ''Walmart'']))) = Inr JNull \<and>
   deals (load_deals 3600 10 11 (Some (client_of unreachable no_cache)) ''78704'' 5 [''HEB'', ''Walmart''])
     = JList get_mock_deals \<and>
   deals_count (load_deals 3600 10 11 (Some (client_of unreachable no_cache)) ''78704'' 5 [''HEB'', ''Walmart''])
     = 6"
proof -
  have res: "result (fst (get_todays_deals 3600 10 11 (client_of unreachable no_cache) ''78704'' 5
      (Some [''HEB'', ''Walmart'']))) = Inr JNull"
    by (simp add: get_todays_deals_def get_cached_def client_of_def no_cache_def request_def
        request_try_def unreachable_def Let_def)
  show ?thesis
    using res load_deals_falls_back [OF res] by simp
qed

section \<open>Properties of sorting\<close>

lemma py_lt_numbers: "num_of a = Some x \<Longrightarrow> num_of b = Some y \<Longrightarrow> py_lt a b = Inr (x < y)"
  by (cases a; cases b) simp_all

lemma py_eq_numbers: "num_of a = Some x \<Longrightarrow> num_of b = Some y \<Longrightarrow> py_eq a b = (x = y)"
  by (cases a; cases b) simp_all

lemma Fin_less [simp]: "(Fin x < Fin y) = (x < y)" "(Fin x < PosInf) = True" "(PosInf < k) = False"
  by (cases k; auto simp add: less_xnum_def)+

lemma key_lt_plain:
  assumes "\<And>d p. k \<noteq> PairKey d p" "\<And>d p. k' \<noteq> PairKey d p" "rank k = Some r" "rank k' = Some r'"
  shows "key_lt k k' = Inr (r < r')"
  using assms by (cases k; cases k') (auto simp add: py_lt_numbers less_prod_def)

lemma key_lt_pair:
  "rank (PairKey d p) = Some r \<Longrightarrow> rank (PairKey e q) = Some r' \<Longrightarrow>
   key_lt (PairKey d p) (PairKey e q) = Inr (r < r')"
  by (auto simp add: py_lt_numbers py_eq_numbers less_prod_def)

lemma insert_key_insort:
  "\<forall>q\<in>set qs. key_lt (fst q) (fst p) = Inr (g q < g p) \<Longrightarrow> insert_key p qs = insort_key g p qs"
  by (induction qs) (auto simp add: not_le)

lemma stable_sort_sort_key:
  "\<forall>p\<in>set ps. \<forall>q\<in>set ps. key_lt (fst p) (fst q) = Inr (g p < g q) \<Longrightarrow> stable_sort ps = sort_key g ps"
proof (induction ps)
  case Nil
  then show ?case by (simp add: stable_sort_def)
next
  case (Cons p ps)
  then have "stable_sort ps = sort_key g ps"
    by simp
  moreover have "insert_key p (sort_key g ps) = insort_key g p (sort_key g ps)"
    using Cons.prems by (intro insert_key_insort) simp
  ultimately show ?case
    by (simp add: stable_sort_def)
qed

lemma comparable_all:
  "\<forall>a\<in>set ks. \<forall>b\<in>set ks. \<not> isl (key_lt a b) \<Longrightarrow> comparable ks"
  by (induction ks) (auto simp add: list_all_iff)

lemma keys_of_map: "\<forall>x\<in>set xs. f x = Inr (kf x) \<Longrightarrow> keys_of f xs = Inr (map kf xs)"
  by (induction xs) simp_all

lemma sort_key_map: "sort_key h (map d xs) = map d (sort_key (\<lambda>x. h (d x)) xs)"
proof (induction xs)
  case Nil
  then show ?case by simp
next
  case (Cons x xs)
  have "insort_key h (d x) (map d ys) = map d (insort_key (\<lambda>x. h (d x)) x ys)" for ys
    by (induction ys) simp_all
  with Cons show ?case by simp
qed

lemma sort_with_ranked:
  assumes keys: "\<forall>x\<in>set xs. f x = Inr (kf x)"
    and lt: "\<forall>x\<in>set xs. \<forall>y\<in>set xs. key_lt (kf x) (kf y) = Inr (g x < g y)"
  shows "sort_with f reverse xs = Inr (if reverse then rev (sort_key g (rev xs)) else sort_key g xs)"
proof (cases "length xs \<le> 1")
  case True
  then have "xs = [] \<or> (\<exists>x. xs = [x])"
    by (cases xs) auto
  then show ?thesis
    using keys by (auto simp add: sort_with_def)
next
  case False
  let ?d = "\<lambda>x. (kf x, x)"
  have z: "zip (map kf xs) xs = map ?d xs"
    by (induction xs) simp_all
  have c: "comparable (map kf xs)"
    using lt by (intro comparable_all) auto
  have s: "stable_sort (map ?d ys) = map ?d (sort_key g ys)" if "set ys = set xs" for ys
  proof -
    have "stable_sort (map ?d ys) = sort_key (g \<circ> snd) (map ?d ys)"
      using lt that by (intro stable_sort_sort_key) auto
    also have "\<dots> = map ?d (sort_key g ys)"
      by (simp add: sort_key_map comp_def)
    finally show ?thesis .
  qed
  show ?thesis
    using False
    by (simp add: sort_with_def keys_of_map [OF keys] c z rev_map s comp_def)
qed

lemma field_key_ranked:
  assumes "number_or_absent k x" "d = InfKey \<or> d = Key (JInt 0)"
  shows "\<exists>key r. field_key k d x = Inr key \<and> rank key = Some r \<and> (\<forall>e p. key \<noteq> PairKey e p)"
  using assms
  by (auto simp add: number_or_absent_def field_key_def split: sum.splits option.splits)

lemma sort_with_field:
  assumes num: "\<forall>x\<in>set xs. number_or_absent k x" and d: "d = InfKey \<or> d = Key (JInt 0)"
  shows "sort_with (field_key k d) reverse xs =
    Inr (if reverse then rev (sort_key (rank_of (field_key k d)) (rev xs))
         else sort_key (rank_of (field_key k d)) xs)"
proof (rule sort_with_ranked [where kf = "\<lambda>x. projr (field_key k d x)"])
  show "\<forall>x\<in>set xs. field_key k d x = Inr (projr (field_key k d x))"
    using field_key_ranked [OF _ d] num by fastforce
  show "\<forall>x\<in>set xs. \<forall>y\<in>set xs.
      key_lt (projr (field_key k d x)) (projr (field_key k d y)) =
      Inr (rank_of (field_key k d) x < rank_of (field_key k d) y)"
  proof (intro ballI)
    fix x y
    assume "x \<in> set xs" "y \<in> set xs"
    with num have "number_or_absent k x" "number_or_absent k y"
      by simp_all
    from field_key_ranked [OF this(1) d] field_key_ranked [OF this(2) d]
    obtain kx rx ky ry where
      x: "field_key k d x = Inr kx" "rank kx = Some rx" "\<And>e p. kx \<noteq> PairKey e p" and
      y: "field_key k d y = Inr ky" "rank ky = Some ry" "\<And>e p. ky \<noteq> PairKey e p"
      by blast
    from key_lt_plain [OF x(3) y(3) x(2) y(2)]
    show "key_lt (projr (field_key k d x)) (projr (field_key k d y)) =
      Inr (rank_of (field_key k d) x < rank_of (field_key k d) y)"
      by (simp add: rank_of_def x y)
  qed
qed

lemma best_value_key_ranked:
  assumes "number_or_absent ''discount_percent'' x" "number_or_absent ''price'' x"
  shows "\<exists>d p r. best_value_key x = Inr (PairKey d p) \<and> rank (PairKey d p) = Some r"
  using assms
  by (auto simp add: number_or_absent_def best_value_key_def py_get_def split: sum.splits option.splits)

lemma sort_with_best_value:
  assumes num: "\<forall>x\<in>set xs. number_or_absent ''discount_percent'' x \<and> number_or_absent ''price'' x"
  shows "sort_with best_value_key True xs = Inr (rev (sort_key (rank_of best_value_key) (rev xs)))"
proof -
  have "sort_with best_value_key True xs =
      Inr (if True then rev (sort_key (rank_of best_value_key) (rev xs))
           else sort_key (rank_of best_value_key) xs)"
  proof (rule sort_with_ranked [where kf = "\<lambda>x. projr (best_value_key x)"])
    show "\<forall>x\<in>set xs. best_value_key x = Inr (projr (best_value_key x))"
      using best_value_key_ranked num by fastforce
    show "\<forall>x\<in>set xs. \<forall>y\<in>set xs.
        key_lt (projr (best_value_key x)) (projr (best_value_key y)) =
        Inr (rank_of best_value_key x < rank_of best_value_key y)"
    proof (intro ballI)
      fix x y
      assume "x \<in> set xs" "y \<in> set xs"
      with num best_value_key_ranked [of x] best_value_key_ranked [of y]
      obtain d p r e q r' where
        x: "best_value_key x = Inr (PairKey d p)" "rank (PairKey d p) = Some r" and
        y: "best_value_key y = Inr (PairKey e q)" "rank (PairKey e q) = Some r'"
        by blast
      from key_lt_pair [OF x(2) y(2)]
      show "key_lt (projr (best_value_key x)) (projr (best_value_key y)) =
        Inr (rank_of best_value_key x < rank_of best_value_key y)"
        by (simp add: rank_of_def x y del: rank.simps)
    qed
  qed
  then show ?thesis by simp
qed

lemma ascending:
  "mset (sort_key g xs) = mset xs \<and> sorted (map g (sort_key g xs)) \<and>
   (\<forall>k. filter (\<lambda>y. g y = k) (sort_key g xs) = filter (\<lambda>y. g y = k) xs)"
  by (simp add: sort_key_stable)

lemma descending:
  "mset (rev (sort_key g (rev xs))) = mset xs \<and> sorted (rev (map g (rev (sort_key g (rev xs))))) \<and>
   (\<forall>k. filter (\<lambda>y. g y = k) (rev (sort_key g (rev xs))) = filter (\<lambda>y. g y = k) xs)"
  by (simp add: sort_key_stable rev_map rev_filter [symmetric])

lemma ranks:
  "get_item x ''price'' = Inr None \<Longrightarrow> rank_of price_key x = (PosInf, 0)"
  "get_item x ''price'' = Inr (Some v) \<Longrightarrow> num_of v = Some p \<Longrightarrow> rank_of price_key x = (Fin p, 0)"
  "get_item x ''discount_percent'' = Inr None \<Longrightarrow> rank_of discount_key x = (Fin 0, 0)"
  "get_item x ''discount_percent'' = Inr (Some v) \<Longrightarrow> num_of v = Some p \<Longrightarrow>
     rank_of discount_key x = (Fin p, 0)"
  "get_item x ''distance'' = Inr None \<Longrightarrow> rank_of distance_key x = (PosInf, 0)"
  "get_item x ''distance'' = Inr (Some v) \<Longrightarrow> num_of v = Some p \<Longrightarrow> rank_of distance_key x = (Fin p, 0)"
  "py_get x ''discount_percent'' (JInt 0) = Inr v \<Longrightarrow> num_of v = Some p \<Longrightarrow>
   py_get x ''price'' (JInt 0) = Inr w \<Longrightarrow> num_of w = Some q \<Longrightarrow>
     rank_of best_value_key x = (Fin p, - q)"
  by (simp_all add: rank_of_def price_key_def discount_key_def distance_key_def field_key_def
      best_value_key_def)

text \<open>
  On entries whose key fields are absent or numbers the four orderings are what the
  specification says: a permutation of the entries, sorted by the rank of the key
  (ascending for price and distance, descending for discount and Best Value), with
  entries of equal rank in their order. Any option other than the three named ones is
  Best Value.
\<close>

lemma sort_by_price:
  assumes "\<forall>x\<in>set xs. number_or_absent ''price'' x"
  shows "\<exists>ys. sort_step ''Price (Low to High)'' xs = Inr ys \<and> mset ys = mset xs \<and>
    sorted (map (rank_of price_key) ys) \<and>
    (\<forall>k. filter (\<lambda>y. rank_of price_key y = k) ys = filter (\<lambda>y. rank_of price_key y = k) xs)"
  using sort_with_field [OF assms, of InfKey False] ascending [of "rank_of price_key" xs]
  by (simp add: sort_step_def price_key_def [abs_def])

lemma sort_by_discount:
  assumes "\<forall>x\<in>set xs. number_or_absent ''discount_percent'' x"
  shows "\<exists>ys. sort_step ''Discount %'' xs = Inr ys \<and> mset ys = mset xs \<and>
    sorted (rev (map (rank_of discount_key) ys)) \<and>
    (\<forall>k. filter (\<lambda>y. rank_of discount_key y = k) ys = filter (\<lambda>y. rank_of discount_key y = k) xs)"
  using sort_with_field [OF assms, of "Key (JInt 0)" True] descending [of "rank_of discount_key" xs]
  by (simp add: sort_step_def discount_key_def [abs_def])

lemma sort_by_distance:
  assumes "\<forall>x\<in>set xs. number_or_absent ''distance'' x"
  shows "\<exists>ys. sort_step ''Distance'' xs = Inr ys \<and> mset ys = mset xs \<and>
    sorted (map (rank_of distance_key) ys) \<and>
    (\<forall>k. filter (\<lambda>y. rank_of distance_key y = k) ys = filter (\<lambda>y. rank_of distance_key y = k) xs)"
  using sort_with_field [OF assms, of InfKey False] ascending [of "rank_of distance_key" xs]
  by (simp add: sort_step_def distance_key_def [abs_def])

lemma sort_by_best_value:
  assumes "\<forall>x\<in>set xs. number_or_absent ''discount_percent'' x \<and> number_or_absent ''price'' x"
    and "sort_option \<noteq> ''Price (Low to High)''" "sort_option \<noteq> ''Discount %''"
      "sort_option \<noteq> ''Distance''"
  shows "\<exists>ys. sort_step sort_option xs = Inr ys \<and> mset ys = mset xs \<and>
    sorted (rev (map (rank_of best_value_key) ys)) \<and>
    (\<forall>k. filter (\<lambda>y. rank_of best_value_key y = k) ys = filter (\<lambda>y. rank_of best_value_key y = k) xs)"
  using sort_with_best_value [OF assms(1)] descending [of "rank_of best_value_key" xs] assms(2-)
  by (simp add: sort_step_def)

lemma price_example:
  "sort_step ''Price (Low to High)''
      [JDict [(''price'', JFloat 5.99)], JDict [(''price'', JFloat 3.49)], JDict [(''price'', JFloat 0.59)]]
    = Inr [JDict [(''price'', JFloat 0.59)], JDict [(''price'', JFloat 3.49)],
           JDict [(''price'', JFloat 5.99)]]"
  by (simp add: sort_step_def sort_with_def price_key_def field_key_def stable_sort_def)

lemma discount_example:
  "sort_step ''Discount %''
      [JDict [(''discount_percent'', JInt 17)], JDict [(''discount_percent'', JInt 30)],
       JDict [(''discount_percent'', JInt 25)]]
    = Inr [JDict [(''discount_percent'', JInt 30)], JDict [(''discount_percent'', JInt 25)],
           JDict [(''discount_percent'', JInt 17)]]"
  by (simp add: sort_step_def sort_with_def discount_key_def field_key_def stable_sort_def)

text \<open>
  C4. The claim fails on a dataset the API can deliver: a deal whose distance is
  \<^verbatim>\<open>null\<close> next to one with a distance. Both pass the filter, and the Distance ordering,
  which is to put the deal without a distance last, raises \<^verbatim>\<open>TypeError\<close>, where it
  sorts when the field is absent.
\<close>

theorem sort_raises_on_null_distance:
  "filtered_deals [] ''All'' (JList [deal_a, deal_b]) = Inr [deal_a, deal_b] \<and>
   sort_step ''Distance'' [deal_a, deal_b] = Inl (TypeError ''< not supported between instances'') \<and>
   sort_step ''Distance'' [deal_a_bare, deal_b] = Inr [deal_b, deal_a_bare]"
  by (simp add: filtered_deals_def keep_deal_def category_skip_def lower_def
      sort_step_def sort_with_def distance_key_def field_key_def stable_sort_def
      deal_a_def deal_b_def deal_a_bare_def)

section \<open>Properties of filtering\<close>

lemma prefix_take: "(\<exists>b. s = q @ b) \<longleftrightarrow> take (length q) s = q"
proof
  assume "\<exists>b. s = q @ b"
  then show "take (length q) s = q" by auto
next
  assume "take (length q) s = q"
  then have "s = q @ drop (length q) s"
    by (metis append_take_drop_id)
  then show "\<exists>b. s = q @ b" ..
qed

lemma is_substr_iff: "is_substr q s \<longleftrightarrow> (\<exists>a b. s = a @ q @ b)"
proof (induction s)
  case Nil
  then show ?case by auto
next
  case (Cons ch s)
  have "(\<exists>a b. ch # s = a @ q @ b) \<longleftrightarrow> (\<exists>b. ch # s = q @ b) \<or> (\<exists>a b. s = a @ q @ b)"
  proof
    assume "\<exists>a b. ch # s = a @ q @ b"
    then obtain a b where ab: "ch # s = a @ q @ b" by blast
    show "(\<exists>b. ch # s = q @ b) \<or> (\<exists>a b. s = a @ q @ b)"
    proof (cases a)
      case Nil
      with ab show ?thesis by auto
    next
      case (Cons x a')
      with ab have "s = a' @ q @ b" by simp
      then show ?thesis by blast
    qed
  next
    assume "(\<exists>b. ch # s = q @ b) \<or> (\<exists>a b. s = a @ q @ b)"
    then show "\<exists>a b. ch # s = a @ q @ b"
    proof
      assume "\<exists>b. ch # s = q @ b"
      then obtain b where "ch # s = [] @ q @ b" by auto
      then show ?thesis by blast
    next
      assume "\<exists>a b. s = a @ q @ b"
      then obtain a b where "ch # s = (ch # a) @ q @ b" by auto
      then show ?thesis by blast
    qed
  qed
  with Cons.IH show ?case
    by (simp add: prefix_take)
qed

lemma lower_empty [simp]: "lower s = [] \<longleftrightarrow> s = []"
  by (simp add: lower_def)

lemma text_entry_field:
  assumes "text_entry (JDict kvs)" "k \<in> {''product_name'', ''brand'', ''category''}"
  shows "map_of kvs k = None \<or> (\<exists>s. map_of kvs k = Some (JStr s))"
  using assms
  by (auto simp add: text_entry_def split: option.splits json.splits)

lemma lowered_field:
  assumes "map_of kvs k = None \<or> (\<exists>s. map_of kvs k = Some (JStr s))" and q: "q \<noteq> []"
  shows "\<exists>v f. py_get (JDict kvs) k (JStr []) = Inr v \<and> py_lower v = Inr f \<and>
     (f \<noteq> [] \<and> is_substr q f) = (\<exists>s a b. map_of kvs k = Some (JStr s) \<and> lower s = a @ q @ b)"
proof -
  from assms(1) show ?thesis
  proof
    assume n: "map_of kvs k = None"
    then have "py_get (JDict kvs) k (JStr []) = Inr (JStr [])" "py_lower (JStr []) = Inr []"
      by (simp_all add: py_get_def lower_def)
    with n show ?thesis by simp
  next
    assume "\<exists>s. map_of kvs k = Some (JStr s)"
    then obtain s where s: "map_of kvs k = Some (JStr s)" ..
    then have "py_get (JDict kvs) k (JStr []) = Inr (JStr s)" "py_lower (JStr s) = Inr (lower s)"
      by (simp_all add: py_get_def)
    moreover have "(lower s \<noteq> [] \<and> is_substr q (lower s)) = (\<exists>a b. lower s = a @ q @ b)"
      using q by (auto simp add: is_substr_iff lower_def)
    ultimately show ?thesis using s by simp
  qed
qed

lemma search_hit_text:
  assumes t: "text_entry (JDict kvs)" and q: "q \<noteq> []"
  shows "\<exists>fs. search_fields (JDict kvs) = Inr fs \<and>
     search_hit q fs = (\<exists>k s a b. k \<in> {''product_name'', ''brand'', ''category''} \<and>
        map_of kvs k = Some (JStr s) \<and> lower s = a @ q @ b)"
proof -
  from lowered_field [OF text_entry_field [OF t] q, of "''product_name''"]
  obtain v1 f1 where f1: "py_get (JDict kvs) ''product_name'' (JStr []) = Inr v1" "py_lower v1 = Inr f1"
    and h1: "(f1 \<noteq> [] \<and> is_substr q f1) =
      (\<exists>s a b. map_of kvs ''product_name'' = Some (JStr s) \<and> lower s = a @ q @ b)"
    by blast
  from lowered_field [OF text_entry_field [OF t] q, of "''brand''"]
  obtain v2 f2 where f2: "py_get (JDict kvs) ''brand'' (JStr []) = Inr v2" "py_lower v2 = Inr f2"
    and h2: "(f2 \<noteq> [] \<and> is_substr q f2) =
      (\<exists>s a b. map_of kvs ''brand'' = Some (JStr s) \<and> lower s = a @ q @ b)"
    by blast
  from lowered_field [OF text_entry_field [OF t] q, of "''category''"]
  obtain v3 f3 where f3: "py_get (JDict kvs) ''category'' (JStr []) = Inr v3" "py_lower v3 = Inr f3"
    and h3: "(f3 \<noteq> [] \<and> is_substr q f3) =
      (\<exists>s a b. map_of kvs ''category'' = Some (JStr s) \<and> lower s = a @ q @ b)"
    by blast
  have fs: "search_fields (JDict kvs) = Inr [f1, f2, f3]"
    by (simp add: search_fields_def f1 f2 f3)
  have "search_hit q [f1, f2, f3] =
      ((f1 \<noteq> [] \<and> is_substr q f1) \<or> (f2 \<noteq> [] \<and> is_substr q f2) \<or> (f3 \<noteq> [] \<and> is_substr q f3))"
    by (auto simp add: search_hit_def)
  also have "\<dots> = (\<exists>k s a b. k \<in> {''product_name'', ''brand'', ''category''} \<and>
        map_of kvs k = Some (JStr s) \<and> lower s = a @ q @ b)"
    unfolding h1 h2 h3 by blast
  finally show ?thesis using fs by blast
qed

lemma category_skip_text:
  assumes "text_entry (JDict kvs)"
  shows "category_skip cat (JDict kvs) =
     Inr (\<not> (cat = ''All'' \<or> map_of kvs ''category'' = Some (JStr cat)))"
  using text_entry_field [OF assms, of "''category''"]
  by (auto simp add: category_skip_def)

lemma keep_deal_text:
  assumes "text_entry deal"
  shows "keep_deal (lower q) cat deal = Inr (spec_keeps q cat deal)"
proof -
  from assms obtain kvs where d: "deal = JDict kvs"
    by (cases deal) (simp_all add: text_entry_def)
  note t = assms [unfolded d]
  show ?thesis
  proof (cases "q = []")
    case True
    then show ?thesis
      by (simp add: keep_deal_def spec_keeps_def d category_skip_text [OF t] lower_def)
  next
    case False
    then have lq: "lower q \<noteq> []" by simp
    from search_hit_text [OF t lq] obtain fs where fs: "search_fields (JDict kvs) = Inr fs"
      and hit: "search_hit (lower q) fs = (\<exists>k s a b. k \<in> {''product_name'', ''brand'', ''category''} \<and>
        map_of kvs k = Some (JStr s) \<and> lower s = a @ lower q @ b)"
      by blast
    show ?thesis
      using False lq
      by (simp add: keep_deal_def spec_keeps_def d fs hit category_skip_text [OF t])
  qed
qed

lemma filter_loop_text:
  "\<forall>deal\<in>set xs. text_entry deal \<Longrightarrow>
   filter_loop (lower q) cat xs = Inr (filter (spec_keeps q cat) xs)"
  by (induction xs) (simp_all add: keep_deal_text)

lemma filtered_deals_text:
  "\<forall>deal\<in>set xs. text_entry deal \<Longrightarrow>
   filtered_deals q cat (JList xs) = Inr (filter (spec_keeps q cat) xs)"
  by (cases xs) (simp_all add: filtered_deals_def filter_loop_text del: filter_loop.simps)

text \<open>
  C5. The claim fails on a dataset the API can deliver: a deal whose brand is \<^verbatim>\<open>null\<close>.
  With the query \<open>milk\<close> and the selector \<open>All\<close> the entry is to be kept, as the query
  occurs in its name, but the filter raises \<^verbatim>\<open>AttributeError\<close>.
\<close>

theorem filter_raises_on_null_brand:
  "filtered_deals ''milk'' ''All''
     (JList [JDict [(''product_name'', JStr ''Milk''), (''brand'', JNull), (''category'', JStr ''Dairy'')]])
     = Inl (AttributeError ''object has no attribute lower'') \<and>
   spec_keeps ''milk'' ''All''
     (JDict [(''product_name'', JStr ''Milk''), (''brand'', JNull), (''category'', JStr ''Dairy'')])"
proof -
  have l: "lower ''milk'' = ''milk''" "lower ''Milk'' = ''milk''"
    by code_simp+
  have "filtered_deals ''milk'' ''All''
     (JList [JDict [(''product_name'', JStr ''Milk''), (''brand'', JNull), (''category'', JStr ''Dairy'')]])
     = Inl (AttributeError ''object has no attribute lower'')"
    by (simp add: filtered_deals_def keep_deal_def search_fields_def py_get_def l)
  moreover have "\<exists>k s a b. k \<in> {''product_name'', ''brand'', ''category''} \<and>
      get_item (JDict [(''product_name'', JStr ''Milk''), (''brand'', JNull), (''category'', JStr ''Dairy'')]) k
        = Inr (Some (JStr s)) \<and>
      lower s = a @ lower ''milk'' @ b"
  proof (intro exI conjI)
    show "''product_name'' \<in> {''product_name'', ''brand'', ''category''}"
      by simp
    show "get_item (JDict [(''product_name'', JStr ''Milk''), (''brand'', JNull), (''category'', JStr ''Dairy'')])
        ''product_name'' = Inr (Some (JStr ''Milk''))"
      by simp
    show "lower ''Milk'' = [] @ lower ''milk'' @ []"
      by (simp add: l)
  qed
  then have "spec_keeps ''milk'' ''All''
     (JDict [(''product_name'', JStr ''Milk''), (''brand'', JNull), (''category'', JStr ''Dairy'')])"
    by (simp add: spec_keeps_def)
  ultimately show ?thesis by simp
qed

end
